theory Spec2Isabelle
  imports Complex_Main "HOL-Library.AList" "HOL-Library.Log_Nat" "HOL-Library.Multiset"
    "HOL-Library.Sublist"
begin

section \<open>Numbers\<close>

text \<open>
  The prices, volumes and indicators of \<^verbatim>\<open>flask_app.py\<close> are pandas \<^verbatim>\<open>float64\<close> values.
  They are modelled by the exact real numbers extended with the three special values
  the program relies on: pandas marks a missing value by NaN, and a division by zero
  does not raise but yields an infinity (or NaN for 0/0). The sign of zero is not
  modelled. The arithmetic that computes the indicators is exact on finite values, so
  an indicator of the model is the real number the program approximates. The one
  product whose value decides a branch, \<^verbatim>\<open>open_ratio * yesterday_close\<close> in the
  open-ratio filter, is rounded as float64 rounds it (\<open>fl_mul64\<close> below).
\<close>

datatype fl = Fin real | PInf | NInf | NaN

fun fl_neg :: "fl \<Rightarrow> fl" where
  "fl_neg (Fin x) = Fin (- x)"
| "fl_neg PInf = NInf"
| "fl_neg NInf = PInf"
| "fl_neg NaN = NaN"

fun fl_add :: "fl \<Rightarrow> fl \<Rightarrow> fl" where
  "fl_add NaN _ = NaN"
| "fl_add _ NaN = NaN"
| "fl_add (Fin x) (Fin y) = Fin (x + y)"
| "fl_add PInf NInf = NaN"
| "fl_add NInf PInf = NaN"
| "fl_add PInf _ = PInf"
| "fl_add NInf _ = NInf"
| "fl_add (Fin x) PInf = PInf"
| "fl_add (Fin x) NInf = NInf"

definition fl_sub :: "fl \<Rightarrow> fl \<Rightarrow> fl" where
  "fl_sub a b = fl_add a (fl_neg b)"

fun fl_mul :: "fl \<Rightarrow> fl \<Rightarrow> fl" where
  "fl_mul NaN _ = NaN"
| "fl_mul _ NaN = NaN"
| "fl_mul (Fin x) (Fin y) = Fin (x * y)"
| "fl_mul PInf PInf = PInf"
| "fl_mul PInf NInf = NInf"
| "fl_mul NInf PInf = NInf"
| "fl_mul NInf NInf = PInf"
| "fl_mul PInf (Fin y) = (if y = 0 then NaN else if 0 < y then PInf else NInf)"
| "fl_mul NInf (Fin y) = (if y = 0 then NaN else if 0 < y then NInf else PInf)"
| "fl_mul (Fin x) PInf = (if x = 0 then NaN else if 0 < x then PInf else NInf)"
| "fl_mul (Fin x) NInf = (if x = 0 then NaN else if 0 < x then NInf else PInf)"

fun fl_div :: "fl \<Rightarrow> fl \<Rightarrow> fl" where
  "fl_div NaN _ = NaN"
| "fl_div _ NaN = NaN"
| "fl_div (Fin x) (Fin y) =
     (if y \<noteq> 0 then Fin (x / y)
      else if x = 0 then NaN else if 0 < x then PInf else NInf)"
| "fl_div (Fin x) PInf = Fin 0"
| "fl_div (Fin x) NInf = Fin 0"
| "fl_div PInf (Fin y) = (if 0 \<le> y then PInf else NInf)"
| "fl_div NInf (Fin y) = (if 0 \<le> y then NInf else PInf)"
| "fl_div PInf _ = NaN"
| "fl_div NInf _ = NaN"

text \<open>Comparisons: every comparison with NaN is false.\<close>

fun fl_lt :: "fl \<Rightarrow> fl \<Rightarrow> bool" where
  "fl_lt NaN _ = False"
| "fl_lt _ NaN = False"
| "fl_lt (Fin x) (Fin y) = (x < y)"
| "fl_lt _ NInf = False"
| "fl_lt PInf _ = False"
| "fl_lt NInf _ = True"
| "fl_lt (Fin x) PInf = True"

definition fl_gt :: "fl \<Rightarrow> fl \<Rightarrow> bool" where
  "fl_gt a b = fl_lt b a"

fun fl_le :: "fl \<Rightarrow> fl \<Rightarrow> bool" where
  "fl_le NaN _ = False"
| "fl_le _ NaN = False"
| "fl_le (Fin x) (Fin y) = (x \<le> y)"
| "fl_le NInf _ = True"
| "fl_le _ PInf = True"
| "fl_le PInf _ = False"
| "fl_le (Fin x) NInf = False"

definition fl_ge :: "fl \<Rightarrow> fl \<Rightarrow> bool" where
  "fl_ge a b = fl_le b a"

definition isna :: "fl \<Rightarrow> bool" where
  "isna a = (a = NaN)"

text \<open>A Python \<^verbatim>\<open>int\<close> that meets a float in arithmetic or a comparison.\<close>

definition of_pyint :: "int \<Rightarrow> fl" where
  "of_pyint n = Fin (real_of_int n)"

text \<open>
  Rounding to float64 (IEEE 754 binary64, round to nearest, ties to even). For
  \<open>x > 0\<close>, \<open>binade x\<close> is the exponent \<open>e\<close> with \<open>2^e \<le> x < 2^(e+1)\<close>. A double
  has 53 significant bits, so in that binade the doubles are the multiples of
  \<open>2^(e-52)\<close>; below \<open>2^(-1022)\<close> (the subnormal range) the spacing stays
  \<open>2^(-1074)\<close>. \<open>round64 x\<close> is the multiple nearest to \<open>x\<close>, the even one of two
  equally near, and an infinity when that multiple reaches \<open>2^1024\<close>.
  \<^verbatim>\<open>float('1.015')\<close> is \<open>round64\<close> of the decimal number, and the product of two
  doubles is \<open>round64\<close> of their exact product.
\<close>

definition pow2 :: "int \<Rightarrow> real" where
  "pow2 k = (if 0 \<le> k then 2 ^ nat k else 1 / 2 ^ nat (- k))"

definition binade :: "real \<Rightarrow> int" where
  "binade x = (if 1 \<le> x then bitlen \<lfloor>x\<rfloor> - 1 else - bitlen (\<lceil>1 / x\<rceil> - 1))"

definition round_half_even :: "real \<Rightarrow> int" where
  "round_half_even x =
     (let f = \<lfloor>x\<rfloor>; d = x - real_of_int f
      in if d < 1 / 2 then f else if 1 / 2 < d then f + 1 else if even f then f else f + 1)"

text \<open>The least magnitude that is out of range, \<open>2^1024\<close>, written out.\<close>

definition float64_overflow :: real where
  "float64_overflow = 179769313486231590772930519078902473361797697894230657273430081157732675805500963132708477322407536021120113879871393357658789768814416622492847430639474124377767893424865485276302219601246094119453082952085005768838150682342462881473913110540827237163350510684586298239947245938479716304835356329624224137216"

definition round64 :: "real \<Rightarrow> fl" where
  "round64 x =
     (if x = 0 then Fin 0
      else
        let e = max (binade \<bar>x\<bar>) (- 1022);
            ulp = pow2 (e - 52);
            y = real_of_int (round_half_even (x / ulp)) * ulp
        in if float64_overflow \<le> \<bar>y\<bar> then (if 0 < x then PInf else NInf) else Fin y)"

definition fl_mul64 :: "fl \<Rightarrow> fl \<Rightarrow> fl" where
  "fl_mul64 a b = (case fl_mul a b of Fin x \<Rightarrow> round64 x | v \<Rightarrow> v)"

section \<open>Frames and series\<close>

text \<open>
  Exceptions are values. The three exception classes below are the ones the modelled
  pandas calls raise: \<^verbatim>\<open>df['x']\<close> on a missing column (KeyError), a negative
  \<^verbatim>\<open>rolling\<close> window (ValueError: window must be an integer 0 or greater), and
  \<^verbatim>\<open>iloc\<close> out of range (IndexError).
\<close>

datatype error = KeyError string | ValueError | IndexError

definition ebind :: "error + 'a \<Rightarrow> ('a \<Rightarrow> error + 'b) \<Rightarrow> error + 'b" where
  "ebind m f = (case m of Inl e \<Rightarrow> Inl e | Inr x \<Rightarrow> f x)"

text \<open>
  A single-level DataFrame: the length of its index and its columns in order, each a
  series of that length. \<^verbatim>\<open>df[name]\<close> reads a column or raises KeyError;
  \<^verbatim>\<open>df[name] = s\<close> overwrites the column in place or appends it.
\<close>

record frame =
  nrows :: nat
  cols :: "(string \<times> fl list) list"

definition wf_frame :: "frame \<Rightarrow> bool" where
  "wf_frame df = list_all (\<lambda>c. length (snd c) = nrows df) (cols df)"

definition col :: "frame \<Rightarrow> string \<Rightarrow> error + fl list" where
  "col df name = (case map_of (cols df) name of None \<Rightarrow> Inl (KeyError name) | Some xs \<Rightarrow> Inr xs)"

definition set_col :: "frame \<Rightarrow> string \<Rightarrow> fl list \<Rightarrow> frame" where
  "set_col df name xs = df\<lparr>cols := AList.update name xs (cols df)\<rparr>"

definition frame_empty :: "frame \<Rightarrow> bool" where
  "frame_empty df = (nrows df = 0 \<or> cols df = [])"

text \<open>\<^verbatim>\<open>s.iloc[-k]\<close> for k = 1, 2: the k-th element from the end, IndexError when there is none.\<close>

definition iloc_neg :: "'a list \<Rightarrow> nat \<Rightarrow> error + 'a" where
  "iloc_neg xs k = (if 0 < k \<and> k \<le> length xs then Inr (xs ! (length xs - k)) else Inl IndexError)"

text \<open>Element-wise arithmetic of a series with a series and with a scalar.\<close>

definition sdiv :: "fl list \<Rightarrow> fl list \<Rightarrow> fl list" where
  "sdiv xs ys = map2 fl_div xs ys"

definition ssub :: "fl list \<Rightarrow> fl list \<Rightarrow> fl list" where
  "ssub xs ys = map2 fl_sub xs ys"

text \<open>
  \<^verbatim>\<open>s.shift(n)\<close>: the values move n places towards the end (towards the start for
  negative n); the places left free hold NaN and the length is kept.
\<close>

definition shift :: "int \<Rightarrow> fl list \<Rightarrow> fl list" where
  "shift n xs =
     (if 0 \<le> n then replicate (min (nat n) (length xs)) NaN @ take (length xs - nat n) xs
      else drop (nat (- n)) xs @ replicate (min (nat (- n)) (length xs)) NaN)"

text \<open>\<^verbatim>\<open>s.diff()\<close> is \<^verbatim>\<open>s - s.shift(1)\<close>.\<close>

definition diff :: "fl list \<Rightarrow> fl list" where
  "diff xs = ssub xs (shift 1 xs)"

text \<open>\<^verbatim>\<open>s.where(cond, 0)\<close> keeps the values where the condition holds and puts 0 elsewhere.\<close>

definition where_gt0 :: "fl list \<Rightarrow> fl list" where
  "where_gt0 xs = map (\<lambda>d. if fl_gt d (Fin 0) then d else Fin 0) xs"

definition where_lt0 :: "fl list \<Rightarrow> fl list" where
  "where_lt0 xs = map (\<lambda>d. if fl_lt d (Fin 0) then d else Fin 0) xs"

text \<open>
  \<^verbatim>\<open>s.rolling(window=w).mean()\<close>. A negative window raises ValueError. Otherwise
  \<^verbatim>\<open>min_periods\<close> defaults to the window: the value at index i is the mean of the w
  values ending at i, and NaN when fewer than w values end there, when one of them is
  NaN, or when w is 0.
\<close>

definition fl_sum :: "fl list \<Rightarrow> fl" where
  "fl_sum xs = foldr fl_add xs (Fin 0)"

definition mean :: "fl list \<Rightarrow> fl" where
  "mean xs = fl_div (fl_sum xs) (Fin (real (length xs)))"

definition window_mean :: "nat \<Rightarrow> fl list \<Rightarrow> nat \<Rightarrow> fl" where
  "window_mean w xs i =
     (if w = 0 \<or> i + 1 < w then NaN else mean (take w (drop (i + 1 - w) xs)))"

definition rolling_mean :: "int \<Rightarrow> fl list \<Rightarrow> error + fl list" where
  "rolling_mean w xs =
     (if w < 0 then Inl ValueError
      else Inr (map (window_mean (nat w) xs) [0..<length xs]))"

section \<open>calculate_indicators\<close>

record indicator_params =
  sma_short :: int
  sma_long :: int
  rsi_period :: int
  vol_period :: int
  hist_days :: int

text \<open>The right-hand sides of the assignments of \<^verbatim>\<open>calculate_indicators\<close>, one each.\<close>

definition hist_return :: "int \<Rightarrow> fl list \<Rightarrow> fl list" where
  "hist_return h close =
     map (\<lambda>x. fl_mul (fl_sub x (Fin 1)) (Fin 100)) (sdiv close (shift h close))"

definition rsi_gain :: "int \<Rightarrow> fl list \<Rightarrow> error + fl list" where
  "rsi_gain n close = rolling_mean n (where_gt0 (diff close))"

definition rsi_loss :: "int \<Rightarrow> fl list \<Rightarrow> error + fl list" where
  "rsi_loss n close = rolling_mean n (map fl_neg (where_lt0 (diff close)))"

definition rsi_value :: "fl \<Rightarrow> fl" where
  "rsi_value rs = fl_sub (Fin 100) (fl_div (Fin 100) (fl_add (Fin 1) rs))"

text \<open>
  The function updates the frame it is given and returns it; the model returns the
  updated frame. An exception leaves through \<open>Inl\<close>, in the order in which the
  statements of the source can raise.
\<close>

definition calculate_indicators :: "frame \<Rightarrow> indicator_params \<Rightarrow> error + frame" where
  "calculate_indicators df p =
     ebind (col df ''Close'') (\<lambda>close0.
     let df1 = set_col df ''Hist_Return_30D'' (hist_return (hist_days p) close0) in
     ebind (col df1 ''Volume'') (\<lambda>volume.
     ebind (rolling_mean (vol_period p) volume) (\<lambda>avg_volume.
     let df2 = set_col df1 ''Avg_Volume'' avg_volume in
     ebind (col df2 ''Close'') (\<lambda>close1.
     ebind (rolling_mean (sma_short p) close1) (\<lambda>sma_s.
     let df3 = set_col df2 ''SMA_Short'' sma_s in
     ebind (col df3 ''Close'') (\<lambda>close2.
     ebind (rolling_mean (sma_long p) close2) (\<lambda>sma_l.
     let df4 = set_col df3 ''SMA_Long'' sma_l in
     ebind (col df4 ''Close'') (\<lambda>close3.
     ebind (rsi_gain (rsi_period p) close3) (\<lambda>gain.
     ebind (rsi_loss (rsi_period p) close3) (\<lambda>loss.
     let rs = sdiv gain loss in
     Inr (set_col df4 ''RSI'' (map rsi_value rs))))))))))))"

text \<open>
  The same function on a store of frames, the frame passed by reference as Python
  passes it: every assignment updates the frame in the store at once, so what was
  assigned before an exception stays, and on success the reference itself is returned.
  \<^verbatim>\<open>screen_and_extract\<close> calls the function on a fresh copy of the ticker's columns, so
  there the value returned, \<open>calculate_indicators\<close> above, is all that matters.
\<close>

type_synonym store = "nat \<Rightarrow> frame"

definition calculate_indicators_in_place ::
  "store \<Rightarrow> nat \<Rightarrow> indicator_params \<Rightarrow> store \<times> (error + nat)" where
  "calculate_indicators_in_place h df p =
     (case col (h df) ''Close'' of
        Inl e \<Rightarrow> (h, Inl e)
      | Inr close0 \<Rightarrow>
     let h1 = h(df := set_col (h df) ''Hist_Return_30D'' (hist_return (hist_days p) close0)) in
     case ebind (col (h1 df) ''Volume'') (rolling_mean (vol_period p)) of
        Inl e \<Rightarrow> (h1, Inl e)
      | Inr avg_volume \<Rightarrow>
     let h2 = h1(df := set_col (h1 df) ''Avg_Volume'' avg_volume) in
     case ebind (col (h2 df) ''Close'') (rolling_mean (sma_short p)) of
        Inl e \<Rightarrow> (h2, Inl e)
      | Inr sma_s \<Rightarrow>
     let h3 = h2(df := set_col (h2 df) ''SMA_Short'' sma_s) in
     case ebind (col (h3 df) ''Close'') (rolling_mean (sma_long p)) of
        Inl e \<Rightarrow> (h3, Inl e)
      | Inr sma_l \<Rightarrow>
     let h4 = h3(df := set_col (h3 df) ''SMA_Long'' sma_l) in
     case ebind (col (h4 df) ''Close'') (\<lambda>close3.
          ebind (rsi_gain (rsi_period p) close3) (\<lambda>gain.
          ebind (rsi_loss (rsi_period p) close3) (\<lambda>loss.
          Inr (map rsi_value (sdiv gain loss))))) of
        Inl e \<Rightarrow> (h4, Inl e)
      | Inr rsi \<Rightarrow> (h4(df := set_col (h4 df) ''RSI'' rsi), Inr df))"

text \<open>The defaults of the form (\<^verbatim>\<open>index\<close>): the windows a run uses unless the user changes them.\<close>

definition default_indicators :: indicator_params where
  "default_indicators = \<lparr>sma_short = 20, sma_long = 60, rsi_period = 14, vol_period = 20, hist_days = 30\<rparr>"

section \<open>The frame calculate_indicators returns\<close>

text \<open>
  When nothing raises, the five assignments can be read off the source one by one.
  \<open>sma\<close> is the value of a rolling mean with a window that is not negative, and
  \<open>augmented\<close> is the frame after the five assignments.
\<close>

definition sma :: "int \<Rightarrow> fl list \<Rightarrow> fl list" where
  "sma w xs = map (window_mean (nat w) xs) [0..<length xs]"

definition rsi_series :: "int \<Rightarrow> fl list \<Rightarrow> fl list" where
  "rsi_series n close =
     map rsi_value (sdiv (sma n (where_gt0 (diff close))) (sma n (map fl_neg (where_lt0 (diff close)))))"

definition augmented :: "frame \<Rightarrow> indicator_params \<Rightarrow> fl list \<Rightarrow> fl list \<Rightarrow> frame" where
  "augmented df p close volume =
     set_col (set_col (set_col (set_col (set_col df
       ''Hist_Return_30D'' (hist_return (hist_days p) close))
       ''Avg_Volume'' (sma (vol_period p) volume))
       ''SMA_Short'' (sma (sma_short p) close))
       ''SMA_Long'' (sma (sma_long p) close))
       ''RSI'' (rsi_series (rsi_period p) close)"

lemma col_set_col: "col (set_col df n xs) m = (if m = n then Inr xs else col df m)"
  by (simp add: col_def set_col_def update_conv')

lemma nrows_set_col: "nrows (set_col df n xs) = nrows df"
  by (simp add: set_col_def)

lemma set_col_same: "col df n = Inr xs \<Longrightarrow> set_col df n xs = df"
  by (auto simp: col_def set_col_def update_triv split: option.splits)

lemma rolling_mean_ok: "0 \<le> w \<Longrightarrow> rolling_mean w xs = Inr (sma w xs)"
  by (simp add: rolling_mean_def sma_def)

lemma rolling_mean_Inr_iff: "rolling_mean w xs = Inr ys \<longleftrightarrow> 0 \<le> w \<and> ys = sma w xs"
  by (auto simp: rolling_mean_def sma_def)

lemma calculate_indicators_ok:
  assumes "col df ''Close'' = Inr close" "col df ''Volume'' = Inr volume"
    "0 \<le> vol_period p" "0 \<le> sma_short p" "0 \<le> sma_long p" "0 \<le> rsi_period p"
  shows "calculate_indicators df p = Inr (augmented df p close volume)"
  using assms
  by (simp add: calculate_indicators_def ebind_def col_set_col Let_def rolling_mean_ok
      rsi_gain_def rsi_loss_def augmented_def rsi_series_def)

lemma calculate_indicators_InrD:
  assumes "calculate_indicators df p = Inr df'"
  shows "\<exists>close volume. col df ''Close'' = Inr close \<and> col df ''Volume'' = Inr volume \<and>
    0 \<le> vol_period p \<and> 0 \<le> sma_short p \<and> 0 \<le> sma_long p \<and> 0 \<le> rsi_period p \<and>
    df' = augmented df p close volume"
proof -
  from assms obtain close where c: "col df ''Close'' = Inr close"
    by (cases "col df ''Close''") (auto simp: calculate_indicators_def ebind_def)
  from assms c obtain volume where v: "col df ''Volume'' = Inr volume"
    by (cases "col df ''Volume''") (auto simp: calculate_indicators_def ebind_def col_set_col Let_def)
  from assms c v have 1: "0 \<le> vol_period p"
    by (auto simp: calculate_indicators_def ebind_def col_set_col Let_def rolling_mean_def split: if_splits)
  from assms c v 1 have 2: "0 \<le> sma_short p"
    by (auto simp: calculate_indicators_def ebind_def col_set_col Let_def rolling_mean_def split: if_splits)
  from assms c v 1 2 have 3: "0 \<le> sma_long p"
    by (auto simp: calculate_indicators_def ebind_def col_set_col Let_def rolling_mean_def split: if_splits)
  from assms c v 1 2 3 have 4: "0 \<le> rsi_period p"
    by (auto simp: calculate_indicators_def ebind_def col_set_col Let_def rolling_mean_def rsi_gain_def
        split: if_splits)
  from calculate_indicators_ok[OF c v 1 2 3 4] assms c v 1 2 3 4 show ?thesis by auto
qed

lemma col_augmented:
  "col (augmented df p close volume) c =
    (if c = ''RSI'' then Inr (rsi_series (rsi_period p) close)
     else if c = ''SMA_Long'' then Inr (sma (sma_long p) close)
     else if c = ''SMA_Short'' then Inr (sma (sma_short p) close)
     else if c = ''Avg_Volume'' then Inr (sma (vol_period p) volume)
     else if c = ''Hist_Return_30D'' then Inr (hist_return (hist_days p) close)
     else col df c)"
  by (simp add: augmented_def col_set_col)

lemma nrows_augmented: "nrows (augmented df p close volume) = nrows df"
  by (simp add: augmented_def nrows_set_col)

lemma augmented_idem:
  "augmented (augmented df p close volume) p close volume = augmented df p close volume"
proof -
  let ?d = "augmented df p close volume"
  have "set_col ?d ''Hist_Return_30D'' (hist_return (hist_days p) close) = ?d"
    by (rule set_col_same) (simp add: col_augmented)
  moreover have "set_col ?d ''Avg_Volume'' (sma (vol_period p) volume) = ?d"
    by (rule set_col_same) (simp add: col_augmented)
  moreover have "set_col ?d ''SMA_Short'' (sma (sma_short p) close) = ?d"
    by (rule set_col_same) (simp add: col_augmented)
  moreover have "set_col ?d ''SMA_Long'' (sma (sma_long p) close) = ?d"
    by (rule set_col_same) (simp add: col_augmented)
  moreover have "set_col ?d ''RSI'' (rsi_series (rsi_period p) close) = ?d"
    by (rule set_col_same) (simp add: col_augmented)
  ultimately show ?thesis
    by (simp add: augmented_def[of ?d])
qed

subsection \<open>Series lemmas\<close>

lemma length_shift: "length (shift n xs) = length xs"
  by (auto simp: shift_def)


lemma length_hist_return: "length (hist_return h xs) = length xs"
  by (simp add: hist_return_def sdiv_def length_shift)



lemma length_sma: "length (sma w xs) = length xs"
  by (simp add: sma_def)

lemma sma_nth: "i < length xs \<Longrightarrow> sma w xs ! i = window_mean (nat w) xs i"
  by (simp add: sma_def)

lemma window_eq:
  assumes "i < length xs" "w \<le> Suc i"
  shows "take w (drop (Suc i - w) xs) = map ((!) xs) [Suc i - w..<Suc i]"
proof (rule nth_equalityI)
  show "length (take w (drop (Suc i - w) xs)) = length (map ((!) xs) [Suc i - w..<Suc i])"
    using assms by (simp del: upt_Suc)
next
  fix k assume "k < length (take w (drop (Suc i - w) xs))"
  then show "take w (drop (Suc i - w) xs) ! k = map ((!) xs) [Suc i - w..<Suc i] ! k"
    using assms by (simp del: upt_Suc)
qed

lemma fl_sum_Fin: "fl_sum (map Fin rs) = Fin (sum_list rs)"
  by (induction rs) (simp_all add: fl_sum_def)

lemma mean_Fin: "rs \<noteq> [] \<Longrightarrow> mean (map Fin rs) = Fin (sum_list rs / real (length rs))"
  by (simp add: mean_def fl_sum_Fin)

lemma mean_Nil: "mean [] = NaN"
  by (simp add: mean_def fl_sum_def)

lemma sum_list_map_nth_upt: "sum_list (map ((!) rs) [a..<b]) = (\<Sum>j = a..<b. rs ! j)"
  by (simp add: interv_sum_list_conv_sum_set_nat)

lemma window_mean_full:
  assumes "i < length xs" "w - 1 \<le> i"
  shows "window_mean w xs i = mean (map ((!) xs) [Suc i - w..<Suc i])"
proof (cases "w = 0")
  case True
  then show ?thesis by (simp add: window_mean_def mean_Nil)
next
  case False
  with assms have "w \<le> Suc i" by simp
  with assms False show ?thesis by (simp add: window_mean_def window_eq del: upt_Suc)
qed

section \<open>screen_and_extract\<close>

definition IHSG_TICKER :: string where
  "IHSG_TICKER = ''^JKSE''"

text \<open>
  The table \<^verbatim>\<open>full_data\<close> comes in two shapes. With MultiIndex columns every column is
  keyed by a pair (field, ticker); with a flat column index the table is one frame
  whose column index has a name (\<^verbatim>\<open>columns.name\<close>, possibly none).
\<close>

datatype table =
  Flat "string option" frame
| Keyed nat "((string \<times> string) \<times> fl list) list"

text \<open>\<^verbatim>\<open>.unique().tolist()\<close>: the distinct values in the order of their first occurrence.\<close>

definition unique :: "'a list \<Rightarrow> 'a list" where
  "unique xs = rev (remdups (rev xs))"

text \<open>
  The tickers the table offers; \<open>None\<close> is the early \<^verbatim>\<open>return [], {}, 'N/A', 0\<close> for a
  flat table that is empty (no rows or no columns).
\<close>

fun tickers_available :: "table \<Rightarrow> string list option" where
  "tickers_available (Keyed n cs) = Some (unique (map (\<lambda>c. snd (fst c)) cs))"
| "tickers_available (Flat nm df) =
     (if \<not> frame_empty df
      then Some (if nm = Some ''Ticker'' then [fst (hd (cols df))] else [IHSG_TICKER])
      else None)"

definition tickers_to_process :: "table \<Rightarrow> string list" where
  "tickers_to_process full_data =
     (case tickers_available full_data of
        None \<Rightarrow> []
      | Some avail \<Rightarrow> filter (\<lambda>t. t \<noteq> IHSG_TICKER) avail)"

text \<open>
  The benchmark line. The status string interpolates the latest close and the change;
  it is modelled by these two values, \<open>NA\<close> standing for the literal \<^verbatim>\<open>"N/A"\<close>.
  This part runs outside the \<^verbatim>\<open>try\<close>: what it raises leaves the function.
\<close>

datatype ihsg_status = NA | Quote fl fl

definition ihsg_analysis :: "frame option \<Rightarrow> error + (ihsg_status \<times> fl)" where
  "ihsg_analysis ihsg_data =
     (case ihsg_data of
        None \<Rightarrow> Inr (NA, Fin 0)
      | Some d \<Rightarrow>
          if frame_empty d then Inr (NA, Fin 0)
          else
            ebind (ebind (col d ''Close'') (\<lambda>c. iloc_neg c 1)) (\<lambda>ihsg_latest.
            ebind (if 1 < nrows d then ebind (col d ''Close'') (\<lambda>c. iloc_neg c 2)
                   else Inr ihsg_latest) (\<lambda>ihsg_prev_close.
            let ihsg_change = fl_mul (fl_sub (fl_div ihsg_latest ihsg_prev_close) (Fin 1)) (Fin 100)
            in Inr (Quote ihsg_latest ihsg_change, ihsg_change))))"

text \<open>
  The frame of one ticker: for a keyed table the columns of that ticker with the
  ticker level dropped; for a flat table the table itself, or \<open>None\<close> for the
  \<^verbatim>\<open>continue\<close> when the table is another ticker's.
\<close>

fun extract_ticker :: "table \<Rightarrow> string \<Rightarrow> error + frame option" where
  "extract_ticker (Keyed n cs) ticker =
     Inr (Some \<lparr>nrows = n, cols = map (\<lambda>c. (fst (fst c), snd c)) (filter (\<lambda>c. snd (fst c) = ticker) cs)\<rparr>)"
| "extract_ticker (Flat nm df) ticker =
     (if nm = Some ''Ticker''
      then (case cols df of
              [] \<Rightarrow> Inl IndexError
            | c # _ \<Rightarrow> if fst c \<noteq> ticker then Inr None else Inr (Some df))
      else Inr (Some df))"

text \<open>
  A row of a frame is read by position from the end (\<^verbatim>\<open>iloc[-1]\<close>, \<^verbatim>\<open>iloc[-2]\<close>);
  \<^verbatim>\<open>row['x']\<close> raises KeyError for a missing column and \<^verbatim>\<open>row.get('x', d)\<close>
  gives the default instead.
\<close>

definition row_at :: "frame \<Rightarrow> nat \<Rightarrow> string \<Rightarrow> error + fl" where
  "row_at df k name = ebind (col df name) (\<lambda>xs. iloc_neg xs k)"

definition row_get :: "frame \<Rightarrow> nat \<Rightarrow> string \<Rightarrow> fl \<Rightarrow> error + fl" where
  "row_get df k name dflt = (case col df name of Inl _ \<Rightarrow> Inr dflt | Inr xs \<Rightarrow> iloc_neg xs k)"

record criteria_params =
  open_ratio :: fl
  min_price :: int
  min_volume_shares :: int

text \<open>
  The defaults of the form: open above 1.015 times the previous close, price 50, five
  million shares. The ratio is a float: the double nearest to 1.015, which is
  4571153621781053 / 2^52, a little less than 1.015.
\<close>

definition default_criteria :: criteria_params where
  "default_criteria =
     \<lparr>open_ratio = Fin (4571153621781053 / 4503599627370496), min_price = 50, min_volume_shares = 5000000\<rparr>"

text \<open>
  A result row. The source formats all values but the ticker and the gain as strings
  (\<^verbatim>\<open>f"{x:,.2f}"\<close>); the record holds the values that are formatted.
\<close>

record screening_result =
  Ticker :: string
  Harga_Terakhir :: fl
  Gain_30D :: fl
  Open_Close_Ratio :: fl
  Open_Hari_Ini :: fl
  Close_Kemarin :: fl
  Volume_Hari_Ini :: fl
  Avg_Volume_20D :: fl
  RSI :: fl

text \<open>
  The body of the \<^verbatim>\<open>try\<close> up to \<^verbatim>\<open>results.append\<close>: the indicators, the latest
  and the previous bar, the three filters, and the result row when all three pass.
  It returns the row to append, if any, and the frame with its indicators. The
  open-ratio filter compares the open with the float64 product of the ratio and the
  previous close; the other two filters compare a float with an integer.
\<close>

definition screen_ticker ::
  "frame \<Rightarrow> criteria_params \<Rightarrow> indicator_params \<Rightarrow> string \<Rightarrow> error + (screening_result option \<times> frame)" where
  "screen_ticker stock_df0 crit p ticker =
     ebind (calculate_indicators stock_df0 p) (\<lambda>stock_df.
     if nrows stock_df = 0 then Inl IndexError
     else
       let y = (if 1 < nrows stock_df then 2 else 1) in
       ebind (row_at stock_df 1 ''Close'') (\<lambda>current_close.
       ebind (row_at stock_df y ''Close'') (\<lambda>yesterday_close.
       ebind (row_at stock_df 1 ''Open'') (\<lambda>current_open.
       ebind (row_at stock_df 1 ''Volume'') (\<lambda>current_volume.
       ebind (row_get stock_df 1 ''Avg_Volume'' (Fin 1)) (\<lambda>avg_volume.
       ebind (row_get stock_df 1 ''Hist_Return_30D'' (Fin (- 999))) (\<lambda>return_30d.
       let open_ratio_ok = fl_gt current_open (fl_mul64 (open_ratio crit) yesterday_close);
           min_price_ok = fl_ge current_close (of_pyint (min_price crit));
           min_volume_ok = fl_gt current_volume (of_pyint (min_volume_shares crit))
       in
         if open_ratio_ok \<and> min_price_ok \<and> min_volume_ok
         then
           ebind (row_get stock_df 1 ''RSI'' NaN) (\<lambda>rsi.
           Inr (Some \<lparr>Ticker = ticker,
                       Harga_Terakhir = current_close,
                       Gain_30D = return_30d,
                       Open_Close_Ratio = fl_div current_open yesterday_close,
                       Open_Hari_Ini = current_open,
                       Close_Kemarin = yesterday_close,
                       Volume_Hari_Ini = current_volume,
                       Avg_Volume_20D = avg_volume,
                       RSI = rsi\<rparr>, stock_df))
         else Inr (None, stock_df))))))))"

text \<open>
  \<^verbatim>\<open>create_plotly_json\<close> reads eight columns of the frame, in this order, and
  serialises three figures. The JSON texts are modelled by the series they carry.
\<close>

record chart =
  chart_title :: string
  price_json :: "fl list list"
  volume_json :: "fl list"
  rsi_json :: "fl list"

definition create_plotly_json :: "frame \<Rightarrow> string \<Rightarrow> indicator_params \<Rightarrow> error + chart" where
  "create_plotly_json df ticker indicators =
     ebind (col df ''Open'') (\<lambda>c_open.
     ebind (col df ''High'') (\<lambda>c_high.
     ebind (col df ''Low'') (\<lambda>c_low.
     ebind (col df ''Close'') (\<lambda>c_close.
     ebind (col df ''SMA_Short'') (\<lambda>c_short.
     ebind (col df ''SMA_Long'') (\<lambda>c_long.
     ebind (col df ''Volume'') (\<lambda>c_volume.
     ebind (col df ''RSI'') (\<lambda>c_rsi.
     Inr \<lparr>chart_title = ticker,
          price_json = [c_open, c_high, c_low, c_close, c_short, c_long],
          volume_json = c_volume,
          rsi_json = c_rsi\<rparr>))))))))"

text \<open>
  One round of the loop on the state (\<^verbatim>\<open>results\<close>, \<^verbatim>\<open>chart_jsons\<close>). The
  \<^verbatim>\<open>except\<close> clause keeps whatever the body had done before it raised: the chart is
  made after the row has been appended.
\<close>

definition loop_body ::
  "table \<Rightarrow> criteria_params \<Rightarrow> indicator_params \<Rightarrow>
   screening_result list \<times> (string \<times> chart) list \<Rightarrow> string \<Rightarrow>
   screening_result list \<times> (string \<times> chart) list" where
  "loop_body full_data crit p st ticker =
     (case extract_ticker full_data ticker of
        Inl e \<Rightarrow> st
      | Inr None \<Rightarrow> st
      | Inr (Some stock_df0) \<Rightarrow>
          (case screen_ticker stock_df0 crit p ticker of
             Inl e \<Rightarrow> st
           | Inr (None, stock_df) \<Rightarrow> st
           | Inr (Some result, stock_df) \<Rightarrow>
               (case create_plotly_json stock_df ticker p of
                  Inl e \<Rightarrow> (fst st @ [result], snd st)
                | Inr j \<Rightarrow> (fst st @ [result], AList.update ticker j (snd st)))))"

definition screen_and_extract ::
  "table \<Rightarrow> frame option \<Rightarrow> criteria_params \<Rightarrow> indicator_params \<Rightarrow>
   error + (screening_result list \<times> (string \<times> chart) list \<times> ihsg_status \<times> fl)" where
  "screen_and_extract full_data ihsg_data crit p =
     (case tickers_available full_data of
        None \<Rightarrow> Inr ([], [], NA, Fin 0)
      | Some avail \<Rightarrow>
          ebind (ihsg_analysis ihsg_data) (\<lambda>(ihsg_status, ihsg_change).
          let st = foldl (loop_body full_data crit p) ([], []) (filter (\<lambda>t. t \<noteq> IHSG_TICKER) avail)
          in Inr (fst st, snd st, ihsg_status, ihsg_change)))"

section \<open>load_historical_data and analyze\<close>

text \<open>
  What \<^verbatim>\<open>yf.download\<close> yields is an input of the model: it raises, or it returns a
  table of one of the two shapes.
\<close>

datatype download = Download_Raised | Downloaded table

text \<open>
  \<^verbatim>\<open>data.loc[:, (slice(None), stock_data_cols)]\<close> keeps the columns of the listed
  tickers. For a listed ticker that the table does not have, pandas 2 raises KeyError
  and older versions leave it out silently; \<open>strict\<close> chooses between the two. The
  columns kept are taken in the order of the table. pandas may order them by the
  ticker list instead; that list comes from \<^verbatim>\<open>list(set(...))\<close>, whose order Python
  leaves open, so the order in which the tickers are processed is not determined by
  the program. It bears on the order of the result rows only.
\<close>

definition loc_tickers ::
  "bool \<Rightarrow> string list \<Rightarrow> ((string \<times> string) \<times> fl list) list \<Rightarrow>
   error + ((string \<times> string) \<times> fl list) list" where
  "loc_tickers strict wanted cs =
     (case filter (\<lambda>t. t \<notin> snd ` fst ` set cs) wanted of
        t # _ \<Rightarrow> if strict then Inl (KeyError t) else Inr (filter (\<lambda>c. snd (fst c) \<in> set wanted) cs)
      | [] \<Rightarrow> Inr (filter (\<lambda>c. snd (fst c) \<in> set wanted) cs))"

text \<open>
  The \<^verbatim>\<open>try\<close> of \<^verbatim>\<open>load_historical_data\<close> and its \<^verbatim>\<open>except\<close>, which answers
  every exception with two empty frames.
\<close>

definition load_historical_data :: "bool \<Rightarrow> string list \<Rightarrow> download \<Rightarrow> table \<times> frame option" where
  "load_historical_data strict tickers dl =
     (case dl of
        Download_Raised \<Rightarrow> (Flat None \<lparr>nrows = 0, cols = []\<rparr>, Some \<lparr>nrows = 0, cols = []\<rparr>)
      | Downloaded (Keyed n cs) \<Rightarrow>
          (case loc_tickers strict (filter (\<lambda>t. t \<noteq> IHSG_TICKER) tickers) cs of
             Inl e \<Rightarrow> (Flat None \<lparr>nrows = 0, cols = []\<rparr>, Some \<lparr>nrows = 0, cols = []\<rparr>)
           | Inr stock_cols \<Rightarrow>
               (Keyed n stock_cols,
                if IHSG_TICKER \<in> snd ` fst ` set cs
                then Some \<lparr>nrows = n,
                       cols = map (\<lambda>c. (fst (fst c), snd c)) (filter (\<lambda>c. snd (fst c) = IHSG_TICKER) cs)\<rparr>
                else None))
      | Downloaded (Flat nm df) \<Rightarrow> (Flat nm df, None))"

text \<open>The two messages \<^verbatim>\<open>analyze\<close> raises as ValueError and shows on the form.\<close>

definition MSG_NO_TICKERS :: string where
  "MSG_NO_TICKERS = ''Harap masukkan minimal satu ticker saham (contoh: BBCA.JK) untuk di-screen.''"

definition MSG_NO_RESULTS :: string where
  "MSG_NO_RESULTS = ''Tidak ada saham yang lolos kriteria screening yang Anda tentukan.''"

text \<open>
  The page \<^verbatim>\<open>analyze\<close> renders: the form with an error message and no results (the
  two \<^verbatim>\<open>except\<close> clauses; \<open>Unexpected_Page e\<close> is the page whose message is formatted
  from the exception), or the results. The model starts where the form has been
  parsed: the handlers parse the same fields again, which then succeeds as before.
\<close>

datatype page =
  Error_Page string
| Unexpected_Page error
| Results_Page "screening_result list" "(string \<times> chart) list" ihsg_status fl

text \<open>
  \<^verbatim>\<open>analyze\<close> up to the test \<^verbatim>\<open>if not results\<close>: \<open>Inl\<close> is the page of an
  \<^verbatim>\<open>except\<close> clause, \<open>Inr\<close> the outcome of the screening with at least one row.
  Of \<^verbatim>\<open>list(set(selected_tickers_list + [IHSG_TICKER]))\<close> only the members matter.
\<close>

definition analyze_screen ::
  "bool \<Rightarrow> string list \<Rightarrow> criteria_params \<Rightarrow> indicator_params \<Rightarrow> download \<Rightarrow>
   page + (screening_result list \<times> (string \<times> chart) list \<times> ihsg_status \<times> fl)" where
  "analyze_screen strict selected_tickers_list crit p dl =
     (if selected_tickers_list = [] then Inl (Error_Page MSG_NO_TICKERS)
      else
        let all_data_tickers = remdups (selected_tickers_list @ [IHSG_TICKER]);
            (full_data, ihsg_data) = load_historical_data strict all_data_tickers dl
        in case screen_and_extract full_data ihsg_data crit p of
             Inl e \<Rightarrow> Inl (Unexpected_Page e)
           | Inr (results, chart_jsons, ihsg_status, ihsg_change) \<Rightarrow>
               if results = [] then Inl (Error_Page MSG_NO_RESULTS)
               else Inr (results, chart_jsons, ihsg_status, ihsg_change))"

text \<open>
  The ranking. \<^verbatim>\<open>pd.to_numeric\<close> leaves the gains, which are floats already, as
  they are. \<^verbatim>\<open>sort_values(by=..., ascending=False)\<close> is a call into pandas with its
  default \<^verbatim>\<open>kind='quicksort'\<close>, which pandas documents as not stable, and with NaN
  last. The sorting routine is numpy's and not part of the program, so the call is
  modelled by what pandas documents of it: the rows with a gain come first, in
  descending order of the gain, in some arrangement of the equal ones; the rows with
  NaN follow in their original order. Which arrangement of equal gains comes out is
  left open. \<^verbatim>\<open>dropna\<close> then removes the NaN rows.
\<close>

definition sort_values_desc :: "screening_result list \<Rightarrow> screening_result list \<Rightarrow> bool" where
  "sort_values_desc rows out \<longleftrightarrow>
     (let k = length (filter (\<lambda>r. \<not> isna (Gain_30D r)) rows) in
      mset (take k out) = mset (filter (\<lambda>r. \<not> isna (Gain_30D r)) rows) \<and>
      sorted_wrt (\<lambda>a b. fl_ge (Gain_30D a) (Gain_30D b)) (take k out) \<and>
      drop k out = filter (\<lambda>r. isna (Gain_30D r)) rows)"

definition dropna :: "screening_result list \<Rightarrow> screening_result list" where
  "dropna rows = filter (\<lambda>r. \<not> isna (Gain_30D r)) rows"

definition final_results :: "screening_result list \<Rightarrow> screening_result list \<Rightarrow> bool" where
  "final_results results out \<longleftrightarrow> (\<exists>sorted_rows. sort_values_desc results sorted_rows \<and> out = dropna sorted_rows)"

text \<open>\<^verbatim>\<open>analyze\<close> as a relation between what it is given and the page it may render.\<close>

definition analyze ::
  "bool \<Rightarrow> string list \<Rightarrow> criteria_params \<Rightarrow> indicator_params \<Rightarrow> download \<Rightarrow> page \<Rightarrow> bool" where
  "analyze strict selected_tickers_list crit p dl pg \<longleftrightarrow>
     (case analyze_screen strict selected_tickers_list crit p dl of
        Inl err \<Rightarrow> pg = err
      | Inr (results, chart_jsons, ihsg_status, ihsg_change) \<Rightarrow>
          (\<exists>out. final_results results out \<and> pg = Results_Page out chart_jsons ihsg_status ihsg_change))"

section \<open>The float64 product\<close>

text \<open>
  \<open>binade\<close> is the exponent it is meant to be, and \<open>round_half_even\<close> moves a
  number by at most one half: \<open>round64 x\<close> is a multiple of the spacing of the
  doubles around \<open>x\<close> and lies within half that spacing of \<open>x\<close>.
\<close>

lemma pow2_nat: "pow2 (int n) = 2 ^ n"
  by (simp add: pow2_def)

lemma pow2_neg_nat: "pow2 (- int n) = 1 / 2 ^ n"
proof (cases n)
  case 0
  then show ?thesis by (simp add: pow2_def)
next
  case (Suc m)
  then have "\<not> 0 \<le> - int n" by simp
  then have "pow2 (- int n) = 1 / 2 ^ nat (- (- int n))" by (simp only: pow2_def if_False)
  then show ?thesis by simp
qed

lemma binade_ge1:
  assumes "1 \<le> x"
  shows "pow2 (binade x) \<le> x \<and> x < pow2 (binade x + 1)"
proof -
  let ?n = "\<lfloor>x\<rfloor>"
  from assms have n: "0 < ?n" by simp
  from n have b: "1 \<le> bitlen ?n" by (simp add: bitlen_alt_def)
  obtain k where k0: "nat (bitlen ?n) = Suc k" using b by (cases "nat (bitlen ?n)") auto
  with b have k: "bitlen ?n = int (Suc k)" by linarith
  have k1: "nat (bitlen ?n - 1) = k" using k by simp
  from bitlen_bounds[OF n] have lo: "2 ^ k \<le> ?n" and hi: "?n < 2 ^ Suc k"
    unfolding k0 k1 by blast+
  have e: "binade x = int k" using assms by (simp add: binade_def k)
  have e1: "binade x + 1 = int (Suc k)" using e by simp
  from lo have "real_of_int (2 ^ k) \<le> real_of_int ?n" by (simp only: of_int_le_iff)
  then have "2 ^ k \<le> real_of_int ?n" by simp
  also have "\<dots> \<le> x" by simp
  finally have 1: "pow2 (binade x) \<le> x" by (simp only: e pow2_nat)
  from hi have "?n + 1 \<le> 2 ^ Suc k" by simp
  then have "real_of_int (?n + 1) \<le> real_of_int (2 ^ Suc k)" by (simp only: of_int_le_iff)
  then have "real_of_int ?n + 1 \<le> 2 ^ Suc k" by simp
  moreover have "x < real_of_int ?n + 1" by linarith
  ultimately have "x < 2 ^ Suc k" by linarith
  then have "x < pow2 (binade x + 1)" by (simp only: e1 pow2_nat)
  with 1 show ?thesis by simp
qed

lemma binade_lt1:
  assumes "0 < x" "x < 1"
  shows "pow2 (binade x) \<le> x \<and> x < pow2 (binade x + 1)"
proof -
  let ?m = "\<lceil>1 / x\<rceil> - 1"
  from assms have "1 < 1 / x" by simp
  then have m: "0 < ?m" by linarith
  from m have b: "1 \<le> bitlen ?m" by (simp add: bitlen_alt_def)
  obtain k where k0: "nat (bitlen ?m) = Suc k" using b by (cases "nat (bitlen ?m)") auto
  with b have k: "bitlen ?m = int (Suc k)" by linarith
  have k1: "nat (bitlen ?m - 1) = k" using k by simp
  from bitlen_bounds[OF m] have lo: "2 ^ k \<le> ?m" and hi: "?m < 2 ^ Suc k"
    unfolding k0 k1 by blast+
  have e: "binade x = - int (Suc k)" using assms by (simp add: binade_def k)
  have e1: "binade x + 1 = - int k" using e by simp
  from lo have "real_of_int (2 ^ k) \<le> real_of_int ?m" by (simp only: of_int_le_iff)
  then have lo': "2 ^ k \<le> real_of_int ?m" by simp
  from hi have "?m + 1 \<le> 2 ^ Suc k" by simp
  then have "real_of_int (?m + 1) \<le> real_of_int (2 ^ Suc k)" by (simp only: of_int_le_iff)
  then have hi': "real_of_int ?m + 1 \<le> 2 ^ Suc k" by simp
  have c1: "real_of_int ?m < 1 / x" by linarith
  have c2: "1 / x \<le> real_of_int ?m + 1" by linarith
  from c2 hi' have "1 / x \<le> 2 ^ Suc k" by linarith
  with assms(1) have "1 \<le> 2 ^ Suc k * x" by (simp add: field_simps del: power_Suc)
  then have "1 / 2 ^ Suc k \<le> x" by (simp add: field_simps del: power_Suc)
  then have 1: "pow2 (binade x) \<le> x" by (simp only: e pow2_neg_nat)
  from c1 lo' have "2 ^ k < 1 / x" by linarith
  with assms(1) have "2 ^ k * x < 1" by (simp add: field_simps)
  then have "x < 1 / 2 ^ k" by (simp add: field_simps)
  then have "x < pow2 (binade x + 1)" by (simp only: e1 pow2_neg_nat)
  with 1 show ?thesis by simp
qed

lemma binade_bounds:
  assumes "0 < x"
  shows "pow2 (binade x) \<le> x \<and> x < pow2 (binade x + 1)"
  using assms binade_ge1[of x] binade_lt1[of x] by (cases "1 \<le> x") simp_all

lemma round_half_even_near: "\<bar>real_of_int (round_half_even x) - x\<bar> \<le> 1 / 2"
  unfolding round_half_even_def Let_def by (simp split: if_splits)

lemma float64_overflow_power: "float64_overflow = 2 ^ 1024"
  by (simp add: float64_overflow_def)

lemma round64_near:
  assumes "round64 x = Fin y"
  shows "\<bar>y - x\<bar> \<le> pow2 (max (binade \<bar>x\<bar>) (- 1022) - 52) / 2"
proof (cases "x = 0")
  case True
  with assms show ?thesis by (simp add: round64_def pow2_def)
next
  case False
  define u where "u = pow2 (max (binade \<bar>x\<bar>) (- 1022) - 52)"
  define m where "m = real_of_int (round_half_even (x / u))"
  have u: "0 < u" by (simp add: u_def pow2_def)
  from assms False have y: "y = m * u"
    by (simp add: round64_def Let_def u_def m_def split: if_splits)
  have "m * u - x = (m - x / u) * u" using u by (simp add: field_simps)
  then have "\<bar>y - x\<bar> = \<bar>m - x / u\<bar> * u"
    using u by (simp add: y abs_mult)
  also have "\<dots> \<le> (1 / 2) * u"
    using round_half_even_near[of "x / u"] u unfolding m_def by (intro mult_right_mono) simp_all
  finally show ?thesis by (simp add: u_def)
qed

text \<open>
  Two ties, which go to the even significand, and the double nearest to one third.
\<close>

lemma round64_examples:
  "round64 (1 + 1 / 2 ^ 53) = Fin 1 \<and>
   round64 (1 + 3 / 2 ^ 53) = Fin (1 + 1 / 2 ^ 51) \<and>
   round64 (1 / 3) = Fin (6004799503160661 / 18014398509481984)"
  by (simp add: round64_def binade_def pow2_def round_half_even_def Let_def compute_bitlen
      float64_overflow_def)

text \<open>
  The double that \<^verbatim>\<open>float('1.015')\<close> yields, and its float64 products with the
  closes 100 and 2200. The exact product with 2200 is a little less than 2233 and
  rounds to 2233.
\<close>

lemma float64_1_015: "round64 (1015 / 1000) = Fin (4571153621781053 / 4503599627370496)"
  by (simp add: round64_def binade_def pow2_def round_half_even_def Let_def compute_bitlen
      float64_overflow_def)

lemma float64_product_100:
  "fl_mul64 (Fin (4571153621781053 / 4503599627370496)) (Fin 100) =
     Fin (7142427534032895 / 70368744177664)"
  by (simp add: fl_mul64_def round64_def binade_def pow2_def round_half_even_def Let_def
      compute_bitlen float64_overflow_def)

lemma float64_product_2200:
  "fl_mul64 (Fin (4571153621781053 / 4503599627370496)) (Fin 2200) = Fin 2233 \<and>
   4571153621781053 / 4503599627370496 * 2200 < (2233::real)"
  by (simp add: fl_mul64_def round64_def binade_def pow2_def round_half_even_def Let_def
      compute_bitlen float64_overflow_def)

section \<open>Claims about calculate_indicators\<close>





text \<open>
  The specification's words for a moving average \<open>ma\<close> over a window of \<open>w\<close> closes:
  undefined (NaN) everywhere when the series has fewer than \<open>w\<close> bars, and at every
  index with at least \<open>w - 1\<close> earlier bars the mean of the \<open>w\<close> closes that end there,
  the current one included. The last conjunct says the same for a series of finite
  closes in plain real arithmetic.
\<close>

definition trailing_mean_of :: "nat \<Rightarrow> fl list \<Rightarrow> fl list \<Rightarrow> bool" where
  "trailing_mean_of w close ma \<longleftrightarrow>
     length ma = length close \<and>
     (length close < w \<longrightarrow> (\<forall>i<length close. ma ! i = NaN)) \<and>
     (\<forall>i<length close. w - 1 \<le> i \<longrightarrow> ma ! i = mean (map ((!) close) [i + 1 - w..<i + 1])) \<and>
     (\<forall>rs. close = map Fin rs \<and> 0 < w \<longrightarrow>
        (\<forall>i<length close. w - 1 \<le> i \<longrightarrow> ma ! i = Fin ((\<Sum>j = i + 1 - w..<i + 1. rs ! j) / real w)))"

lemma sma_trailing_mean: "trailing_mean_of (nat w) close (sma w close)"
  unfolding trailing_mean_of_def
proof (intro conjI allI impI)
  show "length (sma w close) = length close" by (simp add: length_sma)
next
  fix i assume "length close < nat w" "i < length close"
  then show "sma w close ! i = NaN" by (simp add: sma_nth window_mean_def)
next
  fix i assume a: "i < length close" "nat w - 1 \<le> i"
  then show "sma w close ! i = mean (map ((!) close) [i + 1 - nat w..<i + 1])"
    by (simp add: sma_nth window_mean_full del: upt_Suc)
next
  fix rs i assume a: "close = map Fin rs \<and> 0 < nat w" "i < length close" "nat w - 1 \<le> i"
  then have w: "nat w \<le> Suc i" "i < length rs" "0 < nat w" by simp_all
  have 1: "map ((!) close) [Suc i - nat w..<Suc i] = map Fin (map ((!) rs) [Suc i - nat w..<Suc i])"
    using a w by (simp del: upt_Suc)
  have 2: "map ((!) rs) [Suc i - nat w..<Suc i] \<noteq> []"
    using w by (simp del: upt_Suc)
  have 3: "length (map ((!) rs) [Suc i - nat w..<Suc i]) = nat w"
    using w by (simp del: upt_Suc)
  have "sma w close ! i = mean (map Fin (map ((!) rs) [Suc i - nat w..<Suc i]))"
    using a 1 by (simp add: sma_nth window_mean_full del: upt_Suc map_map)
  also have "\<dots> = Fin (sum_list (map ((!) rs) [Suc i - nat w..<Suc i]) / real (nat w))"
    using mean_Fin[OF 2] 3 by simp
  finally show "sma w close ! i = Fin ((\<Sum>j = i + 1 - nat w..<i + 1. rs ! j) / real (nat w))"
    by (simp add: sum_list_map_nth_upt del: upt_Suc)
qed

text \<open>
  Claim C6. Whenever \<^verbatim>\<open>calculate_indicators\<close> has its columns and windows, the
  columns \<^verbatim>\<open>SMA_Long\<close> and \<^verbatim>\<open>SMA_Short\<close> of its result are the trailing means of
  the closes over \<^verbatim>\<open>sma_long\<close> and \<^verbatim>\<open>sma_short\<close> bars: NaN at every index of a series
  shorter than the window, and the arithmetic mean of exactly the window's closes
  ending at the index wherever that many bars exist.
\<close>

theorem moving_averages_are_trailing_means:
  assumes "col df ''Close'' = Inr close" and "col df ''Volume'' = Inr volume"
    and "0 \<le> vol_period p" and "0 \<le> sma_short p" and "0 \<le> sma_long p" and "0 \<le> rsi_period p"
  shows "\<exists>df' ml ms. calculate_indicators df p = Inr df' \<and>
      col df' ''SMA_Long'' = Inr ml \<and> trailing_mean_of (nat (sma_long p)) close ml \<and>
      col df' ''SMA_Short'' = Inr ms \<and> trailing_mean_of (nat (sma_short p)) close ms"
proof -
  have "calculate_indicators df p = Inr (augmented df p close volume)"
    using assms by (simp add: calculate_indicators_ok)
  moreover have "col (augmented df p close volume) ''SMA_Long'' = Inr (sma (sma_long p) close)"
    and "col (augmented df p close volume) ''SMA_Short'' = Inr (sma (sma_short p) close)"
    by (simp_all add: col_augmented)
  ultimately show ?thesis
    using sma_trailing_mean[of "sma_long p" close] sma_trailing_mean[of "sma_short p" close]
    by blast
qed

text \<open>A frame of four bars and a set of short windows, to run the functions on.\<close>

definition four_bars :: frame where
  "four_bars = \<lparr>nrows = 4,
     cols = [(''Open'', [Fin 1, Fin 2, Fin 3, Fin 4]), (''High'', [Fin 2, Fin 3, Fin 4, Fin 5]),
             (''Low'', [Fin 1, Fin 1, Fin 2, Fin 3]), (''Close'', map Fin [1, 2, 3, 4]),
             (''Volume'', [Fin 10, Fin 20, Fin 30, Fin 40])]\<rparr>"

definition short_windows :: indicator_params where
  "short_windows = \<lparr>sma_short = 2, sma_long = 5, rsi_period = 2, vol_period = 2, hist_days = 1\<rparr>"

theorem moving_averages_are_trailing_means_witness:
  "\<exists>df' ml ms. calculate_indicators four_bars short_windows = Inr df' \<and>
      col df' ''SMA_Long'' = Inr ml \<and> ml ! 3 = NaN \<and>
      col df' ''SMA_Short'' = Inr ms \<and> ms ! 3 = Fin (7 / 2)"
proof -
  have c: "col four_bars ''Close'' = Inr (map Fin [1, 2, 3, 4])"
    and v: "col four_bars ''Volume'' = Inr [Fin 10, Fin 20, Fin 30, Fin 40]"
    by (simp_all add: four_bars_def col_def)
  have p: "0 \<le> vol_period short_windows" "0 \<le> sma_short short_windows"
    "0 \<le> sma_long short_windows" "0 \<le> rsi_period short_windows"
    by (simp_all add: short_windows_def)
  from moving_averages_are_trailing_means[OF c v p]
  obtain df' ml ms where ok: "calculate_indicators four_bars short_windows = Inr df'"
    "col df' ''SMA_Long'' = Inr ml" "col df' ''SMA_Short'' = Inr ms"
    and l: "trailing_mean_of (nat (sma_long short_windows)) (map Fin [1, 2, 3, 4]) ml"
    and s: "trailing_mean_of (nat (sma_short short_windows)) (map Fin [1, 2, 3, 4]) ms"
    by blast
  from l have "length (map Fin [1, 2, 3, 4::real]) < nat (sma_long short_windows) \<longrightarrow>
      (\<forall>i<length (map Fin [1, 2, 3, 4::real]). ml ! i = NaN)"
    unfolding trailing_mean_of_def by blast
  then have 1: "ml ! 3 = NaN" by (simp add: short_windows_def)
  from s have "\<forall>rs. map Fin [1, 2, 3, 4] = map Fin rs \<and> 0 < nat (sma_short short_windows) \<longrightarrow>
      (\<forall>i<length (map Fin [1, 2, 3, 4::real]). nat (sma_short short_windows) - 1 \<le> i \<longrightarrow>
         ms ! i = Fin ((\<Sum>j = i + 1 - nat (sma_short short_windows)..<i + 1. rs ! j)
                   / real (nat (sma_short short_windows))))"
    unfolding trailing_mean_of_def by blast
  from this[rule_format, of "[1, 2, 3, 4]" 3]
  have "ms ! 3 = Fin ((\<Sum>j = 3 + 1 - nat (sma_short short_windows)..<3 + 1. [1, 2, 3, 4] ! j)
                   / real (nat (sma_short short_windows)))"
    by (simp add: short_windows_def)
  moreover have "(\<Sum>j = 3 + 1 - nat (sma_short short_windows)..<3 + 1. [1, 2, 3, 4::real] ! j) = 7"
    by code_simp
  moreover have "real (nat (sma_short short_windows)) = 2"
    by (simp add: short_windows_def)
  ultimately have 2: "ms ! 3 = Fin (7 / 2)"
    by (simp only:)
  show ?thesis using ok 1 2 by simp
qed

text \<open>The columns \<^verbatim>\<open>calculate_indicators\<close> assigns.\<close>

definition indicator_columns :: "string list" where
  "indicator_columns = [''Hist_Return_30D'', ''Avg_Volume'', ''SMA_Short'', ''SMA_Long'', ''RSI'']"

text \<open>
  The frame returned, against the frame passed: a second application returns it
  unchanged, and it differs from the frame passed in the five indicator columns only.
\<close>

lemma calculate_indicators_frame:
  assumes "calculate_indicators df p = Inr df'"
  shows "calculate_indicators df' p = Inr df' \<and>
    nrows df' = nrows df \<and>
    (\<forall>c. c \<notin> set indicator_columns \<longrightarrow> col df' c = col df c) \<and>
    col df' ''Open'' = col df ''Open'' \<and> col df' ''High'' = col df ''High'' \<and>
    col df' ''Low'' = col df ''Low'' \<and> col df' ''Close'' = col df ''Close'' \<and>
    col df' ''Volume'' = col df ''Volume''"
proof -
  from calculate_indicators_InrD[OF assms] obtain close volume where
    c: "col df ''Close'' = Inr close" and v: "col df ''Volume'' = Inr volume" and
    w: "0 \<le> vol_period p" "0 \<le> sma_short p" "0 \<le> sma_long p" "0 \<le> rsi_period p" and
    d: "df' = augmented df p close volume"
    by blast
  have c': "col df' ''Close'' = Inr close" and v': "col df' ''Volume'' = Inr volume"
    using c v d by (simp_all add: col_augmented)
  have "calculate_indicators df' p = Inr (augmented df' p close volume)"
    using c' v' w by (rule calculate_indicators_ok)
  then have idem: "calculate_indicators df' p = Inr df'"
    using d by (simp add: augmented_idem)
  have frame: "\<forall>c. c \<notin> set indicator_columns \<longrightarrow> col df' c = col df c"
    using d by (simp add: col_augmented indicator_columns_def)
  have n: "nrows df' = nrows df"
    using d by (simp add: nrows_augmented)
  have ohlcv: "col df' ''Open'' = col df ''Open''" "col df' ''High'' = col df ''High''"
    "col df' ''Low'' = col df ''Low''" "col df' ''Close'' = col df ''Close''"
    "col df' ''Volume'' = col df ''Volume''"
    using d by (simp_all add: col_augmented)
  show ?thesis
    using idem frame n ohlcv by simp
qed

lemma in_place_returns:
  "snd (calculate_indicators_in_place h df p) =
     (case calculate_indicators (h df) p of Inl e \<Rightarrow> Inl e | Inr d \<Rightarrow> Inr df)"
  by (simp add: calculate_indicators_in_place_def calculate_indicators_def ebind_def Let_def
      split: sum.splits)

lemma in_place_ok:
  assumes "calculate_indicators (h df) p = Inr d"
  shows "calculate_indicators_in_place h df p = (h(df := d), Inr df)"
proof -
  from calculate_indicators_InrD[OF assms] obtain close volume where
    c: "col (h df) ''Close'' = Inr close" and v: "col (h df) ''Volume'' = Inr volume" and
    w: "0 \<le> vol_period p" "0 \<le> sma_short p" "0 \<le> sma_long p" "0 \<le> rsi_period p" and
    d: "d = augmented (h df) p close volume"
    by blast
  show ?thesis
    using c v w
    by (simp add: calculate_indicators_in_place_def ebind_def Let_def col_set_col rolling_mean_ok
        rsi_gain_def rsi_loss_def d augmented_def rsi_series_def)
qed

lemma in_place_InrD:
  assumes "calculate_indicators_in_place h df p = (h', Inr r)"
  shows "\<exists>d. calculate_indicators (h df) p = Inr d \<and> h' = h(df := d) \<and> r = df"
proof (cases "calculate_indicators (h df) p")
  case (Inl e)
  with in_place_returns[of h df p] assms show ?thesis by simp
next
  case (Inr d)
  from in_place_ok[of h df p d] assms Inr show ?thesis by simp
qed

text \<open>
  Whatever the outcome, the call touches one frame of the store only, and in that
  frame nothing but indicator columns: every statement that runs before an exception
  is an assignment to one of them.
\<close>

lemma in_place_frame:
  assumes "calculate_indicators_in_place h df p = (h', res)"
  shows "(\<forall>a. a \<noteq> df \<longrightarrow> h' a = h a) \<and> nrows (h' df) = nrows (h df) \<and>
    (\<forall>c. c \<notin> set indicator_columns \<longrightarrow> col (h' df) c = col (h df) c)"
  using assms
  by (auto simp: calculate_indicators_in_place_def Let_def col_set_col nrows_set_col
      indicator_columns_def split: sum.splits)

text \<open>A frame with a Close column and nothing else: the second assignment raises KeyError.\<close>

definition closes_only :: frame where
  "closes_only = \<lparr>nrows = 2, cols = [(''Close'', [Fin 100, Fin 125])]\<rparr>"

text \<open>
  Claim C9 as stated fails: the function has a side effect. The frame of four bars
  that the caller passes has no RSI column before the call and has one after it: the
  frame at the caller's reference is no longer the frame that was passed. On the
  frame without a Volume column the call raises KeyError, and the trailing return
  assigned before the exception stays in the caller's frame.
\<close>

theorem calculate_indicators_changes_its_argument:
  "col four_bars ''RSI'' = Inl (KeyError ''RSI'') \<and>
   col (fst (calculate_indicators_in_place (\<lambda>a. four_bars) 0 short_windows) 0) ''RSI'' =
     Inr [NaN, Fin 100, Fin 100, Fin 100] \<and>
   snd (calculate_indicators_in_place (\<lambda>a. four_bars) 0 short_windows) = Inr 0 \<and>
   fst (calculate_indicators_in_place (\<lambda>a. four_bars) 0 short_windows) 0 \<noteq> four_bars \<and>
   snd (calculate_indicators_in_place (\<lambda>a. closes_only) 0 short_windows) = Inl (KeyError ''Volume'') \<and>
   col closes_only ''Hist_Return_30D'' = Inl (KeyError ''Hist_Return_30D'') \<and>
   col (fst (calculate_indicators_in_place (\<lambda>a. closes_only) 0 short_windows) 0) ''Hist_Return_30D'' =
     Inr [NaN, Fin 25]"
  by code_simp

text \<open>
  Claim C9, as amended. \<^verbatim>\<open>calculate_indicators\<close> is deterministic: equal frames
  and windows give the equal outcome. It is not free of side effects: it updates the
  frame it is passed in place. That update is its only effect and is confined to the
  indicator columns: whether the call returns or raises, no other frame of the store
  changes, and in the frame passed the number of rows and every column that is not
  an indicator column, the Open, High, Low, Close and Volume columns among them, are
  as they were. When the call returns, it returns the reference it was passed, the
  frame has all five indicator columns, and a second application to it changes
  nothing (idempotence).
\<close>

theorem calculate_indicators_updates_in_place:
  assumes "calculate_indicators_in_place h df p = (h', res)"
  shows "(\<forall>h2 df2 p2. h2 = h \<and> df2 = df \<and> p2 = p \<longrightarrow> calculate_indicators_in_place h2 df2 p2 = (h', res)) \<and>
    (\<forall>a. a \<noteq> df \<longrightarrow> h' a = h a) \<and>
    nrows (h' df) = nrows (h df) \<and>
    (\<forall>c. c \<notin> set indicator_columns \<longrightarrow> col (h' df) c = col (h df) c) \<and>
    col (h' df) ''Open'' = col (h df) ''Open'' \<and> col (h' df) ''High'' = col (h df) ''High'' \<and>
    col (h' df) ''Low'' = col (h df) ''Low'' \<and> col (h' df) ''Close'' = col (h df) ''Close'' \<and>
    col (h' df) ''Volume'' = col (h df) ''Volume'' \<and>
    (\<forall>r. res = Inr r \<longrightarrow>
       r = df \<and> calculate_indicators_in_place h' r p = (h', Inr r) \<and>
       (\<forall>c\<in>set indicator_columns. \<exists>xs. col (h' df) c = Inr xs))"
proof -
  from in_place_frame[OF assms] have
    other: "\<forall>a. a \<noteq> df \<longrightarrow> h' a = h a" and n: "nrows (h' df) = nrows (h df)"
    and fr: "\<forall>c. c \<notin> set indicator_columns \<longrightarrow> col (h' df) c = col (h df) c"
    by simp_all
  have ohlcv: "col (h' df) ''Open'' = col (h df) ''Open''" "col (h' df) ''High'' = col (h df) ''High''"
    "col (h' df) ''Low'' = col (h df) ''Low''" "col (h' df) ''Close'' = col (h df) ''Close''"
    "col (h' df) ''Volume'' = col (h df) ''Volume''"
    using fr by (simp_all add: indicator_columns_def)
  have ret: "r = df \<and> calculate_indicators_in_place h' r p = (h', Inr r) \<and>
       (\<forall>c\<in>set indicator_columns. \<exists>xs. col (h' df) c = Inr xs)" if "res = Inr r" for r
  proof -
    from assms that have "calculate_indicators_in_place h df p = (h', Inr r)" by simp
    from in_place_InrD[OF this] obtain d where
      d: "calculate_indicators (h df) p = Inr d" and h': "h' = h(df := d)" and r: "r = df"
      by blast
    from calculate_indicators_frame[OF d] have idem: "calculate_indicators d p = Inr d"
      by simp
    have "calculate_indicators (h' df) p = Inr d" using idem h' by simp
    from in_place_ok[of h' df p d, OF this] have 1: "calculate_indicators_in_place h' r p = (h', Inr r)"
      using h' r by simp
    from calculate_indicators_InrD[OF d] have 2: "\<forall>c\<in>set indicator_columns. \<exists>xs. col d c = Inr xs"
      by (auto simp: col_augmented indicator_columns_def)
    show ?thesis using r 1 2 by (simp add: h')
  qed
  have ret': "\<forall>r. res = Inr r \<longrightarrow>
       r = df \<and> calculate_indicators_in_place h' r p = (h', Inr r) \<and>
       (\<forall>c\<in>set indicator_columns. \<exists>xs. col (h' df) c = Inr xs)"
    using ret by blast
  have det: "\<forall>h2 df2 p2. h2 = h \<and> df2 = df \<and> p2 = p \<longrightarrow> calculate_indicators_in_place h2 df2 p2 = (h', res)"
    using assms by simp
  show ?thesis
    using det other n fr ohlcv ret' by (intro conjI)
qed

theorem calculate_indicators_updates_in_place_witness:
  "calculate_indicators_in_place ((\<lambda>a. four_bars)(0 := augmented four_bars short_windows (map Fin [1, 2, 3, 4])
       [Fin 10, Fin 20, Fin 30, Fin 40])) 0 short_windows =
     ((\<lambda>a. four_bars)(0 := augmented four_bars short_windows (map Fin [1, 2, 3, 4])
       [Fin 10, Fin 20, Fin 30, Fin 40]), Inr 0) \<and>
   col (augmented four_bars short_windows (map Fin [1, 2, 3, 4]) [Fin 10, Fin 20, Fin 30, Fin 40]) ''High'' =
     Inr [Fin 2, Fin 3, Fin 4, Fin 5]"
proof -
  let ?d = "augmented four_bars short_windows (map Fin [1, 2, 3, 4]) [Fin 10, Fin 20, Fin 30, Fin 40]"
  have c: "col four_bars ''Close'' = Inr (map Fin [1, 2, 3, 4])"
    and v: "col four_bars ''Volume'' = Inr [Fin 10, Fin 20, Fin 30, Fin 40]"
    and hi: "col four_bars ''High'' = Inr [Fin 2, Fin 3, Fin 4, Fin 5]"
    by (simp_all add: four_bars_def col_def)
  have p: "0 \<le> vol_period short_windows" "0 \<le> sma_short short_windows"
    "0 \<le> sma_long short_windows" "0 \<le> rsi_period short_windows"
    by (simp_all add: short_windows_def)
  have "calculate_indicators ((\<lambda>a. four_bars) 0) short_windows = Inr ?d"
    using c v p by (simp add: calculate_indicators_ok)
  then have "calculate_indicators_in_place (\<lambda>a. four_bars) 0 short_windows = ((\<lambda>a. four_bars)(0 := ?d), Inr 0)"
    by (rule in_place_ok)
  from calculate_indicators_updates_in_place[OF this] hi show ?thesis by simp
qed

text \<open>
  The sign of zero is not modelled, and in IEEE arithmetic the rolling loss can be
  a negative zero, which makes the quotient of gain and loss the negative infinity.
  The oscillator is 100 for either infinity.
\<close>

lemma rsi_value_infinite: "rsi_value PInf = Fin 100 \<and> rsi_value NInf = Fin 100"
  by (simp add: rsi_value_def fl_sub_def)

text \<open>
  Claim C10. With \<open>gain\<close> and \<open>loss\<close> the rolling means of the positive and the
  negated negative close-to-close differences over \<^verbatim>\<open>rsi_period\<close> bars, as
  \<^verbatim>\<open>calculate_indicators\<close> computes them: at an index where the loss is zero and
  the gain positive the \<^verbatim>\<open>RSI\<close> column is exactly 100, and where both are zero it
  is NaN.
\<close>

theorem rsi_saturates_without_losses:
  assumes "col df ''Close'' = Inr close" and "col df ''Volume'' = Inr volume"
    and "0 \<le> vol_period p" and "0 \<le> sma_short p" and "0 \<le> sma_long p" and "0 \<le> rsi_period p"
  shows "\<exists>df' gain loss rsi. calculate_indicators df p = Inr df' \<and>
      rsi_gain (rsi_period p) close = Inr gain \<and> rsi_loss (rsi_period p) close = Inr loss \<and>
      col df' ''RSI'' = Inr rsi \<and>
      length gain = length close \<and> length loss = length close \<and> length rsi = length close \<and>
      (\<forall>i<length close.
         (loss ! i = Fin 0 \<and> fl_gt (gain ! i) (Fin 0) \<longrightarrow> rsi ! i = Fin 100) \<and>
         (loss ! i = Fin 0 \<and> gain ! i = Fin 0 \<longrightarrow> rsi ! i = NaN))"
proof -
  let ?g = "sma (rsi_period p) (where_gt0 (diff close))"
  let ?l = "sma (rsi_period p) (map fl_neg (where_lt0 (diff close)))"
  let ?r = "rsi_series (rsi_period p) close"
  have ok: "calculate_indicators df p = Inr (augmented df p close volume)"
    using assms by (simp add: calculate_indicators_ok)
  have g: "rsi_gain (rsi_period p) close = Inr ?g" and l: "rsi_loss (rsi_period p) close = Inr ?l"
    using assms(6) by (simp_all add: rsi_gain_def rsi_loss_def rolling_mean_ok)
  have c: "col (augmented df p close volume) ''RSI'' = Inr ?r"
    by (simp add: col_augmented)
  have ld: "length (diff close) = length close"
    by (simp add: diff_def ssub_def length_shift)
  have lg: "length ?g = length close" and ll: "length ?l = length close"
    by (simp_all add: length_sma where_gt0_def where_lt0_def ld)
  have lr: "length ?r = length close"
    by (simp add: rsi_series_def sdiv_def lg ll)
  have nth: "?r ! i = rsi_value (fl_div (?g ! i) (?l ! i))" if "i < length close" for i
    using that lg ll by (simp add: rsi_series_def sdiv_def)
  have sat: "rsi_value (fl_div x (Fin 0)) = Fin 100" if "fl_gt x (Fin 0)" for x
    using that by (cases x) (auto simp: rsi_value_def fl_gt_def fl_sub_def)
  have und: "rsi_value (fl_div (Fin 0) (Fin 0)) = NaN"
    by (simp add: rsi_value_def fl_sub_def)
  have "\<forall>i<length close.
         (?l ! i = Fin 0 \<and> fl_gt (?g ! i) (Fin 0) \<longrightarrow> ?r ! i = Fin 100) \<and>
         (?l ! i = Fin 0 \<and> ?g ! i = Fin 0 \<longrightarrow> ?r ! i = NaN)"
    using nth sat und by simp
  with ok g l c lg ll lr show ?thesis by blast
qed

text \<open>Three equal closes and then a rise: no loss anywhere, a gain only at the end.\<close>

definition flat_then_up :: frame where
  "flat_then_up = \<lparr>nrows = 4,
     cols = [(''Close'', [Fin 5, Fin 5, Fin 5, Fin 6]), (''Volume'', [Fin 10, Fin 20, Fin 30, Fin 40])]\<rparr>"

theorem rsi_saturates_without_losses_witness:
  "\<exists>df' rsi. calculate_indicators flat_then_up short_windows = Inr df' \<and>
      col df' ''RSI'' = Inr rsi \<and> rsi ! 2 = NaN \<and> rsi ! 3 = Fin 100"
proof -
  have c: "col flat_then_up ''Close'' = Inr [Fin 5, Fin 5, Fin 5, Fin 6]"
    and v: "col flat_then_up ''Volume'' = Inr [Fin 10, Fin 20, Fin 30, Fin 40]"
    by (simp_all add: flat_then_up_def col_def)
  have p: "0 \<le> vol_period short_windows" "0 \<le> sma_short short_windows"
    "0 \<le> sma_long short_windows" "0 \<le> rsi_period short_windows"
    by (simp_all add: short_windows_def)
  have g: "rsi_gain (rsi_period short_windows) [Fin 5, Fin 5, Fin 5, Fin 6] =
      Inr [NaN, Fin 0, Fin 0, Fin (1 / 2)]"
    by code_simp
  have l: "rsi_loss (rsi_period short_windows) [Fin 5, Fin 5, Fin 5, Fin 6] =
      Inr [NaN, Fin 0, Fin 0, Fin 0]"
    by code_simp
  from rsi_saturates_without_losses[OF c v p]
  obtain df' gain loss rsi where ok: "calculate_indicators flat_then_up short_windows = Inr df'"
    "col df' ''RSI'' = Inr rsi"
    and gl: "rsi_gain (rsi_period short_windows) [Fin 5, Fin 5, Fin 5, Fin 6] = Inr gain"
      "rsi_loss (rsi_period short_windows) [Fin 5, Fin 5, Fin 5, Fin 6] = Inr loss"
    and a: "\<forall>i<length [Fin 5, Fin 5, Fin 5, Fin 6].
         (loss ! i = Fin 0 \<and> fl_gt (gain ! i) (Fin 0) \<longrightarrow> rsi ! i = Fin 100) \<and>
         (loss ! i = Fin 0 \<and> gain ! i = Fin 0 \<longrightarrow> rsi ! i = NaN)"
    by blast
  from gl g l have e: "gain = [NaN, Fin 0, Fin 0, Fin (1 / 2)]" "loss = [NaN, Fin 0, Fin 0, Fin 0]"
    by simp_all
  from a[rule_format, of 2] e have "rsi ! 2 = NaN" by simp
  moreover from a[rule_format, of 3] e have "rsi ! 3 = Fin 100" by (simp add: fl_gt_def)
  ultimately show ?thesis using ok by simp
qed

section \<open>The loop of screen_and_extract, ticker by ticker\<close>

text \<open>
  What one round of the loop adds depends on the ticker alone, not on the state:
  \<open>row_of\<close> is the row the round appends and \<open>chart_of\<close> the chart it stores, if
  any. \<open>screened\<close> is the state after the loop.
\<close>

definition row_of :: "table \<Rightarrow> criteria_params \<Rightarrow> indicator_params \<Rightarrow> string \<Rightarrow> screening_result option" where
  "row_of full_data crit p ticker =
     (case extract_ticker full_data ticker of
        Inr (Some stock_df0) \<Rightarrow>
          (case screen_ticker stock_df0 crit p ticker of
             Inr (Some result, stock_df) \<Rightarrow> Some result
           | _ \<Rightarrow> None)
      | _ \<Rightarrow> None)"

definition chart_of :: "table \<Rightarrow> criteria_params \<Rightarrow> indicator_params \<Rightarrow> string \<Rightarrow> chart option" where
  "chart_of full_data crit p ticker =
     (case extract_ticker full_data ticker of
        Inr (Some stock_df0) \<Rightarrow>
          (case screen_ticker stock_df0 crit p ticker of
             Inr (Some result, stock_df) \<Rightarrow>
               (case create_plotly_json stock_df ticker p of Inl e \<Rightarrow> None | Inr j \<Rightarrow> Some j)
           | _ \<Rightarrow> None)
      | _ \<Rightarrow> None)"

definition screened ::
  "table \<Rightarrow> criteria_params \<Rightarrow> indicator_params \<Rightarrow> screening_result list \<times> (string \<times> chart) list" where
  "screened full_data crit p =
     foldl (loop_body full_data crit p) ([], []) (tickers_to_process full_data)"

lemma loop_body_eq:
  "loop_body full_data crit p st t =
     (fst st @ (case row_of full_data crit p t of None \<Rightarrow> [] | Some r \<Rightarrow> [r]),
      (case chart_of full_data crit p t of None \<Rightarrow> snd st | Some j \<Rightarrow> AList.update t j (snd st)))"
  by (cases st) (simp add: loop_body_def row_of_def chart_of_def split: sum.splits option.splits prod.splits)

lemma fst_loop_body:
  "fst (loop_body full_data crit p st t) =
     fst st @ (case row_of full_data crit p t of None \<Rightarrow> [] | Some r \<Rightarrow> [r])"
  by (simp add: loop_body_eq)

lemma snd_loop_body:
  "snd (loop_body full_data crit p st t) =
     (case chart_of full_data crit p t of None \<Rightarrow> snd st | Some j \<Rightarrow> AList.update t j (snd st))"
  by (simp add: loop_body_eq)

lemma fst_foldl_loop_body:
  "fst (foldl (loop_body full_data crit p) st ts) = fst st @ List.map_filter (row_of full_data crit p) ts"
proof (induction ts arbitrary: st)
  case Nil
  show ?case by (simp add: List.map_filter_simps)
next
  case (Cons t ts)
  have "fst (foldl (loop_body full_data crit p) st (t # ts)) =
      fst (loop_body full_data crit p st t) @ List.map_filter (row_of full_data crit p) ts"
    by (simp add: Cons.IH)
  then show ?case
    by (simp add: fst_loop_body List.map_filter_simps split: option.splits)
qed

lemma keys_foldl_loop_body:
  "fst ` set (snd (foldl (loop_body full_data crit p) st ts)) =
     fst ` set (snd st) \<union> {t \<in> set ts. chart_of full_data crit p t \<noteq> None}"
proof (induction ts arbitrary: st)
  case Nil
  show ?case by simp
next
  case (Cons t ts)
  have "fst ` set (snd (foldl (loop_body full_data crit p) st (t # ts))) =
      fst ` set (snd (loop_body full_data crit p st t)) \<union>
        {t \<in> set ts. chart_of full_data crit p t \<noteq> None}"
    by (simp add: Cons.IH)
  moreover have "fst ` set (snd (loop_body full_data crit p st t)) =
      fst ` set (snd st) \<union> (if chart_of full_data crit p t \<noteq> None then {t} else {})"
    by (simp add: snd_loop_body dom_update split: option.splits)
  ultimately show ?case by auto
qed

lemma screen_and_extract_eq:
  assumes "tickers_available full_data \<noteq> None" "ihsg_analysis ihsg_data = Inr (s, c)"
  shows "screen_and_extract full_data ihsg_data crit p =
     Inr (fst (screened full_data crit p), snd (screened full_data crit p), s, c)"
  using assms
  by (auto simp: screen_and_extract_def screened_def tickers_to_process_def ebind_def Let_def)

lemma screen_and_extract_InrD:
  assumes "screen_and_extract full_data ihsg_data crit p = Inr (results, charts, s, c)"
    and "tickers_available full_data \<noteq> None"
  shows "results = fst (screened full_data crit p) \<and> charts = snd (screened full_data crit p) \<and>
    ihsg_analysis ihsg_data = Inr (s, c)"
  using assms
  by (auto simp: screen_and_extract_def screened_def tickers_to_process_def ebind_def Let_def
      split: sum.splits)

lemma results_screened:
  "fst (screened full_data crit p) = List.map_filter (row_of full_data crit p) (tickers_to_process full_data)"
  by (simp add: screened_def fst_foldl_loop_body)

lemma row_of_Ticker: "row_of full_data crit p t = Some r \<Longrightarrow> Ticker r = t"
  by (auto simp: row_of_def screen_ticker_def ebind_def Let_def split: sum.splits option.splits if_splits prod.splits)

text \<open>
  The close before the latest one (the latest itself when there is one bar only), and
  the three hard filters twice: \<open>hard_filters\<close> as the program computes them, the
  product of ratio and previous close rounded to float64, and
  \<open>hard_filters_as_stated\<close> in the words of the specification, with the product of
  the real numbers.
\<close>

definition previous :: "fl list \<Rightarrow> fl" where
  "previous xs = (if 1 < length xs then xs ! (length xs - 2) else last xs)"

definition hard_filters :: "criteria_params \<Rightarrow> fl \<Rightarrow> fl \<Rightarrow> fl \<Rightarrow> fl \<Rightarrow> bool" where
  "hard_filters crit open_today close_yesterday close_today volume_today \<longleftrightarrow>
     fl_gt open_today (fl_mul64 (open_ratio crit) close_yesterday) \<and>
     fl_ge close_today (of_pyint (min_price crit)) \<and>
     fl_gt volume_today (of_pyint (min_volume_shares crit))"

definition hard_filters_as_stated :: "criteria_params \<Rightarrow> fl \<Rightarrow> fl \<Rightarrow> fl \<Rightarrow> fl \<Rightarrow> bool" where
  "hard_filters_as_stated crit open_today close_yesterday close_today volume_today \<longleftrightarrow>
     fl_gt open_today (fl_mul (open_ratio crit) close_yesterday) \<and>
     fl_ge close_today (of_pyint (min_price crit)) \<and>
     fl_gt volume_today (of_pyint (min_volume_shares crit))"

lemma wf_frame_length: "wf_frame df \<Longrightarrow> col df name = Inr xs \<Longrightarrow> length xs = nrows df"
  by (auto simp: wf_frame_def col_def list_all_iff split: option.splits dest!: map_of_SomeD)

lemma iloc_neg_last: "xs \<noteq> [] \<Longrightarrow> iloc_neg xs (Suc 0) = Inr (last xs)"
  by (simp add: iloc_neg_def last_conv_nth Suc_le_eq)

lemma iloc_neg_previous:
  "xs \<noteq> [] \<Longrightarrow> iloc_neg xs (if 1 < length xs then 2 else 1) = Inr (previous xs)"
  by (cases xs) (auto simp: iloc_neg_def previous_def last_conv_nth Suc_le_eq)

lemma length_rsi_series: "length (rsi_series n close) = length close"
  by (simp add: rsi_series_def sdiv_def length_sma where_gt0_def where_lt0_def diff_def ssub_def length_shift)

lemma row_at_augmented:
  assumes "col df name = Inr xs" "xs \<noteq> []" "name \<notin> set indicator_columns"
  shows "row_at (augmented df p close volume) (Suc 0) name = Inr (last xs)"
  using assms by (simp add: row_at_def col_augmented indicator_columns_def ebind_def iloc_neg_last)

text \<open>The row a passing ticker contributes, from its columns.\<close>

definition result_row ::
  "string \<Rightarrow> indicator_params \<Rightarrow> fl list \<Rightarrow> fl list \<Rightarrow> fl list \<Rightarrow> screening_result" where
  "result_row ticker p opens closes volumes =
     \<lparr>Ticker = ticker,
      Harga_Terakhir = last closes,
      Gain_30D = last (hist_return (hist_days p) closes),
      Open_Close_Ratio = fl_div (last opens) (previous closes),
      Open_Hari_Ini = last opens,
      Close_Kemarin = previous closes,
      Volume_Hari_Ini = last volumes,
      Avg_Volume_20D = last (sma (vol_period p) volumes),
      RSI = last (rsi_series (rsi_period p) closes)\<rparr>"

lemma screen_ticker_ok:
  assumes wf: "wf_frame df" and n: "0 < nrows df"
    and o: "col df ''Open'' = Inr opens" and c: "col df ''Close'' = Inr closes"
    and v: "col df ''Volume'' = Inr volumes"
    and w: "0 \<le> vol_period p" "0 \<le> sma_short p" "0 \<le> sma_long p" "0 \<le> rsi_period p"
  shows "screen_ticker df crit p ticker =
     Inr (if hard_filters crit (last opens) (previous closes) (last closes) (last volumes)
          then Some (result_row ticker p opens closes volumes) else None,
          augmented df p closes volumes)"
proof -
  let ?d = "augmented df p closes volumes"
  have len: "length opens = nrows df" "length closes = nrows df" "length volumes = nrows df"
    using wf o c v by (simp_all add: wf_frame_length)
  with n have ne: "opens \<noteq> []" "closes \<noteq> []" "volumes \<noteq> []" by auto
  have calc: "calculate_indicators df p = Inr ?d"
    using c v w by (rule calculate_indicators_ok)
  have nd: "nrows ?d = nrows df" by (simp add: nrows_augmented)
  have r1: "row_at ?d (Suc 0) ''Close'' = Inr (last closes)"
    using row_at_augmented[OF c ne(2)] by (simp add: indicator_columns_def)
  have r2: "row_at ?d 2 ''Close'' = Inr (previous closes)" if "Suc 0 < nrows df"
    using that c len by (simp add: row_at_def col_augmented ebind_def iloc_neg_def previous_def)
  have r2': "previous closes = last closes" if "\<not> Suc 0 < nrows df"
    using that len by (simp add: previous_def)
  have r3: "row_at ?d (Suc 0) ''Open'' = Inr (last opens)"
    using row_at_augmented[OF o ne(1)] by (simp add: indicator_columns_def)
  have r4: "row_at ?d (Suc 0) ''Volume'' = Inr (last volumes)"
    using row_at_augmented[OF v ne(3)] by (simp add: indicator_columns_def)
  have ne2: "sma (vol_period p) volumes \<noteq> []" "hist_return (hist_days p) closes \<noteq> []"
    "rsi_series (rsi_period p) closes \<noteq> []"
    using len n length_sma[of "vol_period p" volumes] length_hist_return[of "hist_days p" closes]
      length_rsi_series[of "rsi_period p" closes]
    by auto
  have g1: "row_get ?d (Suc 0) ''Avg_Volume'' (Fin 1) = Inr (last (sma (vol_period p) volumes))"
    using iloc_neg_last[OF ne2(1)] by (simp add: row_get_def col_augmented)
  have g2: "row_get ?d (Suc 0) ''Hist_Return_30D'' (Fin (- 999)) = Inr (last (hist_return (hist_days p) closes))"
    using iloc_neg_last[OF ne2(2)] by (simp add: row_get_def col_augmented)
  have g3: "row_get ?d (Suc 0) ''RSI'' NaN = Inr (last (rsi_series (rsi_period p) closes))"
    using iloc_neg_last[OF ne2(3)] by (simp add: row_get_def col_augmented)
  show ?thesis
    using n by (simp add: screen_ticker_def calc nd r1 r2 r2' r3 r4 g1 g2 g3 ebind_def Let_def
        hard_filters_def result_row_def)
qed

lemma set_map_filter_row: "set (List.map_filter f xs) = {y. \<exists>x\<in>set xs. f x = Some y}"
  by (induction xs) (auto split: option.splits)

lemma tickers_in_results:
  "Ticker ` set (List.map_filter (row_of full_data crit p) ts) =
     {t \<in> set ts. row_of full_data crit p t \<noteq> None}"
  by (auto simp: set_map_filter_row image_iff dest: row_of_Ticker)

lemma row_of_ok:
  assumes "extract_ticker full_data t = Inr (Some df)"
    and "wf_frame df" and "0 < nrows df"
    and "col df ''Open'' = Inr opens" and "col df ''Close'' = Inr closes"
    and "col df ''Volume'' = Inr volumes"
    and "0 \<le> vol_period p" "0 \<le> sma_short p" "0 \<le> sma_long p" "0 \<le> rsi_period p"
  shows "row_of full_data crit p t =
     (if hard_filters crit (last opens) (previous closes) (last closes) (last volumes)
      then Some (result_row t p opens closes volumes) else None)"
  using assms(1) screen_ticker_ok[OF assms(2-10), of crit t]
  by (simp add: row_of_def)

section \<open>Claims about screen_and_extract\<close>

text \<open>
  Where the product of ratio and previous close is itself a double, rounding changes
  nothing and the two readings of the filters agree.
\<close>

lemma hard_filters_exact_product:
  assumes "open_ratio crit = Fin r" "close_yesterday = Fin c" "round64 (r * c) = Fin (r * c)"
  shows "hard_filters crit open_today close_yesterday close_today volume_today \<longleftrightarrow>
         hard_filters_as_stated crit open_today close_yesterday close_today volume_today"
  using assms by (simp add: hard_filters_def hard_filters_as_stated_def fl_mul64_def)

text \<open>
  A keyed table of two bars for two tickers. DDD.JK closes at 2200 and opens at 2233
  the day after; EEE.JK closes at 100 and opens at 101.5.
\<close>

definition boundary_opens :: table where
  "boundary_opens = Keyed 2
     [((''Close'', ''DDD.JK''), [Fin 2200, Fin 2250]), ((''Close'', ''EEE.JK''), [Fin 100, Fin 102]),
      ((''High'', ''DDD.JK''), [Fin 2210, Fin 2260]), ((''High'', ''EEE.JK''), [Fin 101, Fin 103]),
      ((''Low'', ''DDD.JK''), [Fin 2190, Fin 2230]), ((''Low'', ''EEE.JK''), [Fin 99, Fin 101]),
      ((''Open'', ''DDD.JK''), [Fin 2200, Fin 2233]), ((''Open'', ''EEE.JK''), [Fin 100, Fin (203 / 2)]),
      ((''Volume'', ''DDD.JK''), [Fin 6000000, Fin 7000000]),
      ((''Volume'', ''EEE.JK''), [Fin 6000000, Fin 7000000])]"

text \<open>
  Claim C1 as stated fails at an open on the boundary. With the default ratio, the
  double nearest to 1.015, the open 2233 of DDD.JK is strictly greater than the ratio
  times its previous close 2200 and its other two filters pass, yet the program
  excludes it: the float64 product is 2233.0 and 2233 > 2233.0 is false. Read with
  the decimal number 1.015 instead, the claim excludes EEE.JK, whose open 101.5 is
  not greater than 1.015 times 100, yet the program includes it: its product is
  101.49999999999998579.
\<close>

theorem float64_product_decides_boundary_opens:
  "(case screen_and_extract boundary_opens None default_criteria short_windows of
      Inl e \<Rightarrow> None
    | Inr (results, rest) \<Rightarrow> Some (map Ticker results)) = Some [''EEE.JK''] \<and>
   tickers_to_process boundary_opens = [''DDD.JK'', ''EEE.JK''] \<and>
   hard_filters_as_stated default_criteria (Fin 2233) (Fin 2200) (Fin 2250) (Fin 7000000) \<and>
   \<not> hard_filters_as_stated (default_criteria\<lparr>open_ratio := Fin (1015 / 1000)\<rparr>)
       (Fin (203 / 2)) (Fin 100) (Fin 102) (Fin 7000000)"
  by code_simp

text \<open>
  Claim C1, as amended. Take a run of \<^verbatim>\<open>screen_and_extract\<close> and a ticker it
  processes whose frame is well formed, has at least one bar and the Open, Close and
  Volume columns, with windows that are not negative. The ticker has a row among the
  results exactly when the three hard filters pass on its latest bar as the program
  computes them: latest open strictly greater than the float64 product of
  \<^verbatim>\<open>open_ratio\<close> and the previous close (their exact product rounded to the nearest
  double), latest close at least \<^verbatim>\<open>min_price\<close>, latest volume above
  \<^verbatim>\<open>min_volume_shares\<close>; and then the row carries the ticker and its latest close,
  latest open, previous close and latest volume. With open 101, previous close 100
  and the ratio \<^verbatim>\<open>float('1.015')\<close> the ticker is excluded, whatever the other filters
  say.
\<close>

theorem hard_filters_decide_inclusion:
  assumes run: "screen_and_extract full_data ihsg_data crit p = Inr (results, chart_jsons, status, change)"
    and t: "t \<in> set (tickers_to_process full_data)"
    and e: "extract_ticker full_data t = Inr (Some df)"
    and wf: "wf_frame df" and n: "0 < nrows df"
    and o: "col df ''Open'' = Inr opens" and c: "col df ''Close'' = Inr closes"
    and v: "col df ''Volume'' = Inr volumes"
    and w: "0 \<le> vol_period p" "0 \<le> sma_short p" "0 \<le> sma_long p" "0 \<le> rsi_period p"
  shows "(t \<in> Ticker ` set results \<longleftrightarrow>
            hard_filters crit (last opens) (previous closes) (last closes) (last volumes)) \<and>
         (hard_filters crit (last opens) (previous closes) (last closes) (last volumes) \<longrightarrow>
            (\<exists>r\<in>set results. Ticker r = t \<and> Harga_Terakhir r = last closes \<and>
               Open_Hari_Ini r = last opens \<and> Close_Kemarin r = previous closes \<and>
               Volume_Hari_Ini r = last volumes)) \<and>
         (last opens = Fin 101 \<and> previous closes = Fin 100 \<and> open_ratio crit = round64 (1015 / 1000) \<longrightarrow>
            t \<notin> Ticker ` set results)"
proof -
  let ?hf = "hard_filters crit (last opens) (previous closes) (last closes) (last volumes)"
  from t have av: "tickers_available full_data \<noteq> None"
    by (cases "tickers_available full_data") (auto simp: tickers_to_process_def)
  from screen_and_extract_InrD[OF run av]
  have res: "results = List.map_filter (row_of full_data crit p) (tickers_to_process full_data)"
    by (simp add: results_screened)
  have row: "row_of full_data crit p t = (if ?hf then Some (result_row t p opens closes volumes) else None)"
    using e wf n o c v w by (rule row_of_ok)
  have 1: "t \<in> Ticker ` set results \<longleftrightarrow> ?hf"
    using t row by (simp add: res tickers_in_results)
  have 2: "\<exists>r\<in>set results. Ticker r = t \<and> Harga_Terakhir r = last closes \<and>
      Open_Hari_Ini r = last opens \<and> Close_Kemarin r = previous closes \<and>
      Volume_Hari_Ini r = last volumes" if ?hf
  proof -
    from that t row have "result_row t p opens closes volumes \<in> set results"
      by (auto simp: res set_map_filter_row)
    then show ?thesis
      by (rule rev_bexI) (simp add: result_row_def)
  qed
  have 3: "\<not> ?hf"
    if s: "last opens = Fin 101 \<and> previous closes = Fin 100 \<and> open_ratio crit = round64 (1015 / 1000)"
  proof -
    from s have b: "last opens = Fin 101" "previous closes = Fin 100" by simp_all
    from s have r: "open_ratio crit = Fin (4571153621781053 / 4503599627370496)"
      by (simp only: float64_1_015)
    show ?thesis
      by (simp add: hard_filters_def fl_gt_def b r float64_product_100)
  qed
  show ?thesis using 1 2 3 by blast
qed

text \<open>
  A keyed table of two bars for two tickers and the benchmark: AAA.JK opens 10 percent
  above its previous close, BBB.JK opens at 101 after a close of 100 (scenario B).
\<close>

definition two_tickers :: table where
  "two_tickers = Keyed 2
     [((''Close'', ''AAA.JK''), [Fin 100, Fin 120]), ((''Close'', ''BBB.JK''), [Fin 100, Fin 100]),
      ((''Close'', ''^JKSE''), [Fin 6400, Fin 6800]),
      ((''High'', ''AAA.JK''), [Fin 102, Fin 125]), ((''High'', ''BBB.JK''), [Fin 101, Fin 102]),
      ((''High'', ''^JKSE''), [Fin 6410, Fin 6810]),
      ((''Low'', ''AAA.JK''), [Fin 99, Fin 108]), ((''Low'', ''BBB.JK''), [Fin 99, Fin 99]),
      ((''Low'', ''^JKSE''), [Fin 6390, Fin 6400]),
      ((''Open'', ''AAA.JK''), [Fin 100, Fin 110]), ((''Open'', ''BBB.JK''), [Fin 100, Fin 101]),
      ((''Open'', ''^JKSE''), [Fin 6400, Fin 6405]),
      ((''Volume'', ''AAA.JK''), [Fin 6000000, Fin 7000000]),
      ((''Volume'', ''BBB.JK''), [Fin 6000000, Fin 7000000]),
      ((''Volume'', ''^JKSE''), [Fin 0, Fin 0])]"

lemma tickers_to_process_two_tickers: "tickers_to_process two_tickers = [''AAA.JK'', ''BBB.JK'']"
  by (simp add: two_tickers_def tickers_to_process_def unique_def IHSG_TICKER_def)

theorem hard_filters_decide_inclusion_witness:
  "\<exists>results chart_jsons status change.
     screen_and_extract two_tickers None default_criteria short_windows =
       Inr (results, chart_jsons, status, change) \<and>
     ''AAA.JK'' \<in> Ticker ` set results \<and> ''BBB.JK'' \<notin> Ticker ` set results"
proof -
  let ?R = "fst (screened two_tickers default_criteria short_windows)"
  let ?C = "snd (screened two_tickers default_criteria short_windows)"
  let ?A = "\<lparr>nrows = 2, cols = [(''Close'', [Fin 100, Fin 120]), (''High'', [Fin 102, Fin 125]),
      (''Low'', [Fin 99, Fin 108]), (''Open'', [Fin 100, Fin 110]),
      (''Volume'', [Fin 6000000, Fin 7000000])]\<rparr>"
  let ?B = "\<lparr>nrows = 2, cols = [(''Close'', [Fin 100, Fin 100]), (''High'', [Fin 101, Fin 102]),
      (''Low'', [Fin 99, Fin 99]), (''Open'', [Fin 100, Fin 101]),
      (''Volume'', [Fin 6000000, Fin 7000000])]\<rparr>"
  have run: "screen_and_extract two_tickers None default_criteria short_windows = Inr (?R, ?C, NA, Fin 0)"
    by (rule screen_and_extract_eq) (simp_all add: two_tickers_def ihsg_analysis_def)
  have tp: "''AAA.JK'' \<in> set (tickers_to_process two_tickers)"
    "''BBB.JK'' \<in> set (tickers_to_process two_tickers)"
    by (simp_all add: two_tickers_def tickers_to_process_def unique_def IHSG_TICKER_def)
  have ea: "extract_ticker two_tickers ''AAA.JK'' = Inr (Some ?A)"
    and eb: "extract_ticker two_tickers ''BBB.JK'' = Inr (Some ?B)"
    by (simp_all add: two_tickers_def)
  have wa: "wf_frame ?A" "0 < nrows ?A" and wb: "wf_frame ?B" "0 < nrows ?B"
    by (simp_all add: wf_frame_def)
  have ca: "col ?A ''Open'' = Inr [Fin 100, Fin 110]" "col ?A ''Close'' = Inr [Fin 100, Fin 120]"
    "col ?A ''Volume'' = Inr [Fin 6000000, Fin 7000000]"
    and cb: "col ?B ''Open'' = Inr [Fin 100, Fin 101]" "col ?B ''Close'' = Inr [Fin 100, Fin 100]"
    "col ?B ''Volume'' = Inr [Fin 6000000, Fin 7000000]"
    by (simp_all add: col_def)
  have p: "0 \<le> vol_period short_windows" "0 \<le> sma_short short_windows"
    "0 \<le> sma_long short_windows" "0 \<le> rsi_period short_windows"
    by (simp_all add: short_windows_def)
  have hf: "hard_filters default_criteria (Fin 110) (Fin 100) (Fin 120) (Fin 7000000)"
    "\<not> hard_filters default_criteria (Fin 101) (Fin 100) (Fin 100) (Fin 7000000)"
    using float64_product_100
    by (simp_all add: hard_filters_def default_criteria_def fl_gt_def fl_ge_def of_pyint_def)
  have "''AAA.JK'' \<in> Ticker ` set ?R"
    using hard_filters_decide_inclusion[OF run tp(1) ea wa ca p] hf(1)
    by (simp add: previous_def)
  moreover have "''BBB.JK'' \<notin> Ticker ` set ?R"
    using hard_filters_decide_inclusion[OF run tp(2) eb wb cb p] hf(2)
    by (simp add: previous_def)
  ultimately show ?thesis using run by blast
qed

lemma fl_ge_mono: "fl_ge x (of_pyint m) \<Longrightarrow> n \<le> m \<Longrightarrow> fl_ge x (of_pyint n)"
  by (cases x) (auto simp: fl_ge_def of_pyint_def)

lemma screen_ticker_min_price:
  assumes "min_price crit \<le> m"
  shows "screen_ticker df (crit\<lparr>min_price := m\<rparr>) p t = Inr (Some r, d) \<longleftrightarrow>
    screen_ticker df crit p t = Inr (Some r, d) \<and> fl_ge (Harga_Terakhir r) (of_pyint m)"
  using assms
  by (auto simp: screen_ticker_def ebind_def Let_def dest: fl_ge_mono split: sum.splits if_splits)

lemma row_of_min_price:
  assumes "min_price crit \<le> m"
  shows "row_of full_data (crit\<lparr>min_price := m\<rparr>) p t =
    (case row_of full_data crit p t of
       None \<Rightarrow> None
     | Some r \<Rightarrow> if fl_ge (Harga_Terakhir r) (of_pyint m) then Some r else None)"
proof (cases "extract_ticker full_data t")
  case (Inl e)
  then show ?thesis by (simp add: row_of_def)
next
  case (Inr x)
  show ?thesis
  proof (cases x)
    case None
    with Inr show ?thesis by (simp add: row_of_def)
  next
    case (Some df)
    show ?thesis
    proof (cases "\<exists>r d. screen_ticker df (crit\<lparr>min_price := m\<rparr>) p t = Inr (Some r, d)")
      case True
      then obtain r d where hi: "screen_ticker df (crit\<lparr>min_price := m\<rparr>) p t = Inr (Some r, d)"
        by blast
      with screen_ticker_min_price[OF assms, of df p t r d]
      have "screen_ticker df crit p t = Inr (Some r, d)" "fl_ge (Harga_Terakhir r) (of_pyint m)"
        by simp_all
      with hi Inr Some show ?thesis by (simp add: row_of_def)
    next
      case False
      then have hi: "row_of full_data (crit\<lparr>min_price := m\<rparr>) p t = None"
        using Inr Some by (auto simp: row_of_def split: sum.splits option.splits prod.splits)
      show ?thesis
      proof (cases "row_of full_data crit p t")
        case None
        with hi show ?thesis by simp
      next
        case (Some r)
        then obtain d where lo: "screen_ticker df crit p t = Inr (Some r, d)"
          using Inr \<open>x = Some df\<close>
          by (auto simp: row_of_def split: sum.splits option.splits prod.splits)
        with False screen_ticker_min_price[OF assms, of df p t r d]
        have "\<not> fl_ge (Harga_Terakhir r) (of_pyint m)" by blast
        with hi Some show ?thesis by simp
      qed
    qed
  qed
qed

lemma chart_of_min_price:
  assumes "min_price crit \<le> m" "chart_of full_data (crit\<lparr>min_price := m\<rparr>) p t = Some j"
  shows "chart_of full_data crit p t = Some j"
proof -
  from assms(2) obtain df r d where e: "extract_ticker full_data t = Inr (Some df)"
    and hi: "screen_ticker df (crit\<lparr>min_price := m\<rparr>) p t = Inr (Some r, d)"
    and j: "create_plotly_json d t p = Inr j"
    by (auto simp: chart_of_def split: sum.splits option.splits prod.splits)
  from hi screen_ticker_min_price[OF assms(1), of df p t r d]
  have "screen_ticker df crit p t = Inr (Some r, d)" by simp
  with e j show ?thesis by (simp add: chart_of_def)
qed

lemma map_filter_min_price:
  assumes "min_price crit \<le> m"
  shows "List.map_filter (row_of full_data (crit\<lparr>min_price := m\<rparr>) p) ts =
    filter (\<lambda>r. fl_ge (Harga_Terakhir r) (of_pyint m)) (List.map_filter (row_of full_data crit p) ts)"
  by (induction ts) (simp_all add: row_of_min_price[OF assms] split: option.splits)

text \<open>
  Claim C7. For the same table, benchmark and windows, and criteria that differ in
  \<^verbatim>\<open>min_price\<close> only, the run with the higher \<^verbatim>\<open>min_price\<close> returns exactly the
  rows of the other run whose latest close is at least the higher price, in the same
  order: the result list never grows, every ticker that passes with the higher
  price passes with the lower one, and no chart is added.
\<close>

theorem raising_min_price_only_removes:
  assumes run: "screen_and_extract full_data ihsg_data crit p = Inr (results, chart_jsons, status, change)"
    and le: "min_price crit \<le> m"
  shows "\<exists>results' chart_jsons'.
      screen_and_extract full_data ihsg_data (crit\<lparr>min_price := m\<rparr>) p =
        Inr (results', chart_jsons', status, change) \<and>
      results' = filter (\<lambda>r. fl_ge (Harga_Terakhir r) (of_pyint m)) results \<and>
      length results' \<le> length results \<and>
      Ticker ` set results' \<subseteq> Ticker ` set results \<and>
      fst ` set chart_jsons' \<subseteq> fst ` set chart_jsons"
proof (cases "tickers_available full_data")
  case None
  with run show ?thesis by (simp add: screen_and_extract_def)
next
  case (Some avail)
  then have av: "tickers_available full_data \<noteq> None" by simp
  let ?hi = "crit\<lparr>min_price := m\<rparr>"
  from screen_and_extract_InrD[OF run av]
  have r: "results = fst (screened full_data crit p)"
    and c: "chart_jsons = snd (screened full_data crit p)"
    and i: "ihsg_analysis ihsg_data = Inr (status, change)"
    by simp_all
  have run': "screen_and_extract full_data ihsg_data ?hi p =
      Inr (fst (screened full_data ?hi p), snd (screened full_data ?hi p), status, change)"
    using av i by (rule screen_and_extract_eq)
  have 1: "fst (screened full_data ?hi p) = filter (\<lambda>r. fl_ge (Harga_Terakhir r) (of_pyint m)) results"
    by (simp add: r results_screened map_filter_min_price[OF le])
  have 2: "fst ` set (snd (screened full_data ?hi p)) \<subseteq> fst ` set chart_jsons"
    unfolding c screened_def keys_foldl_loop_body
    using chart_of_min_price[OF le] by auto
  have 3: "length (fst (screened full_data ?hi p)) \<le> length results"
    unfolding 1 by simp
  have 4: "Ticker ` set (fst (screened full_data ?hi p)) \<subseteq> Ticker ` set results"
    unfolding 1 by auto
  show ?thesis using run' 1 2 3 4 by blast
qed

theorem raising_min_price_only_removes_witness:
  "\<exists>results chart_jsons results' chart_jsons'.
     screen_and_extract two_tickers None default_criteria short_windows =
       Inr (results, chart_jsons, NA, Fin 0) \<and>
     screen_and_extract two_tickers None (default_criteria\<lparr>min_price := 200\<rparr>) short_windows =
       Inr (results', chart_jsons', NA, Fin 0) \<and>
     results' = filter (\<lambda>r. fl_ge (Harga_Terakhir r) (of_pyint 200)) results \<and>
     length results' \<le> length results"
proof -
  have run: "screen_and_extract two_tickers None default_criteria short_windows =
      Inr (fst (screened two_tickers default_criteria short_windows),
           snd (screened two_tickers default_criteria short_windows), NA, Fin 0)"
    by (rule screen_and_extract_eq) (simp_all add: two_tickers_def ihsg_analysis_def)
  have le: "min_price default_criteria \<le> 200"
    by (simp add: default_criteria_def)
  from raising_min_price_only_removes[OF run le]
  obtain results' chart_jsons' where
    "screen_and_extract two_tickers None (default_criteria\<lparr>min_price := 200\<rparr>) short_windows =
       Inr (results', chart_jsons', NA, Fin 0)"
    "results' = filter (\<lambda>r. fl_ge (Harga_Terakhir r) (of_pyint 200))
       (fst (screened two_tickers default_criteria short_windows))"
    "length results' \<le> length (fst (screened two_tickers default_criteria short_windows))"
    by (elim exE conjE)
  with run show ?thesis by (intro exI conjI)
qed

text \<open>The frame with no rows and no columns.\<close>

definition empty_frame :: frame where
  "empty_frame = \<lparr>nrows = 0, cols = []\<rparr>"

text \<open>The percent change of the latest close against the prior one, as the benchmark line computes it.\<close>

definition pct_change :: "fl \<Rightarrow> fl \<Rightarrow> fl" where
  "pct_change prior latest = fl_mul (fl_sub (fl_div latest prior) (Fin 1)) (Fin 100)"

lemma ihsg_analysis_bars:
  assumes "\<not> frame_empty d" "wf_frame d" "col d ''Close'' = Inr closes"
  shows "ihsg_analysis (Some d) =
    Inr (Quote (last closes) (pct_change (previous closes) (last closes)),
         pct_change (previous closes) (last closes))"
proof -
  have len: "length closes = nrows d" using assms by (simp add: wf_frame_length)
  with assms(1) have ne: "closes \<noteq> []" by (auto simp: frame_empty_def)
  have 1: "iloc_neg closes (Suc 0) = Inr (last closes)" using ne by (rule iloc_neg_last)
  have 2: "iloc_neg closes 2 = Inr (previous closes)" if "Suc 0 < nrows d"
    using that len by (simp add: iloc_neg_def previous_def)
  have 3: "previous closes = last closes" if "\<not> Suc 0 < nrows d"
    using that len by (simp add: previous_def)
  show ?thesis
    using assms(1,3) by (simp add: ihsg_analysis_def ebind_def 1 2 3 Let_def pct_change_def)
qed

text \<open>
  The pairs that \<^verbatim>\<open>load_historical_data\<close> returns, which are the pairs that
  \<^verbatim>\<open>analyze\<close> passes on: a benchmark with a bar comes with a keyed ticker table
  only, so the early return for a flat, empty table is not taken then.
\<close>

lemma loaded_benchmark_with_bars:
  assumes "load_historical_data strict tickers dl = (full_data, Some d)" and "\<not> frame_empty d"
  shows "tickers_available full_data \<noteq> None"
  using assms
  by (auto simp: load_historical_data_def frame_empty_def
      split: download.splits table.splits sum.splits if_splits)

lemma screen_without_benchmark:
  assumes "ihsg_data = None \<or> (ihsg_data = Some d \<and> frame_empty d)"
  shows "screen_and_extract full_data ihsg_data crit p =
    Inr (fst (screened full_data crit p), snd (screened full_data crit p), NA, Fin 0)"
proof (cases "tickers_available full_data")
  case None
  then show ?thesis
    by (simp add: screen_and_extract_def screened_def tickers_to_process_def)
next
  case (Some avail)
  then have av: "tickers_available full_data \<noteq> None" by simp
  from assms have "ihsg_analysis ihsg_data = Inr (NA, Fin 0)"
    by (auto simp: ihsg_analysis_def)
  with av show ?thesis by (rule screen_and_extract_eq)
qed

text \<open>
  Claim C8. Let the ticker table and the benchmark be what \<^verbatim>\<open>load_historical_data\<close>
  returns. If the benchmark series has at least one bar (a well-formed frame that is
  not empty, with its closes), the status is the latest close with the percent change
  against the prior close, and the change is 0 when there is one bar only, its close
  a positive real. If the benchmark is missing or empty, the status is N/A and the
  change 0. In both cases the results and charts are those of the loop over the
  tickers, which does not read the benchmark.
\<close>

theorem benchmark_status_of_loaded_data:
  assumes "load_historical_data strict tickers dl = (full_data, ihsg_data)"
  shows "(ihsg_data = Some d \<and> \<not> frame_empty d \<and> wf_frame d \<and> col d ''Close'' = Inr closes \<longrightarrow>
            screen_and_extract full_data ihsg_data crit p =
              Inr (fst (screened full_data crit p), snd (screened full_data crit p),
                   Quote (last closes) (pct_change (previous closes) (last closes)),
                   pct_change (previous closes) (last closes)) \<and>
            (length closes = 1 \<and> last closes = Fin x \<and> 0 < x \<longrightarrow>
               pct_change (previous closes) (last closes) = Fin 0)) \<and>
         (ihsg_data = None \<or> (ihsg_data = Some d \<and> frame_empty d) \<longrightarrow>
            screen_and_extract full_data ihsg_data crit p =
              Inr (fst (screened full_data crit p), snd (screened full_data crit p), NA, Fin 0))"
proof (intro conjI impI)
  assume a: "ihsg_data = Some d \<and> \<not> frame_empty d \<and> wf_frame d \<and> col d ''Close'' = Inr closes"
  with assms have "load_historical_data strict tickers dl = (full_data, Some d)" "\<not> frame_empty d"
    by simp_all
  then have av: "tickers_available full_data \<noteq> None"
    by (rule loaded_benchmark_with_bars)
  from a have "ihsg_analysis ihsg_data =
      Inr (Quote (last closes) (pct_change (previous closes) (last closes)),
           pct_change (previous closes) (last closes))"
    by (simp add: ihsg_analysis_bars)
  with av show "screen_and_extract full_data ihsg_data crit p =
      Inr (fst (screened full_data crit p), snd (screened full_data crit p),
           Quote (last closes) (pct_change (previous closes) (last closes)),
           pct_change (previous closes) (last closes))"
    by (rule screen_and_extract_eq)
next
  assume "length closes = 1 \<and> last closes = Fin x \<and> 0 < x"
  then show "pct_change (previous closes) (last closes) = Fin 0"
    by (simp add: previous_def pct_change_def fl_sub_def)
next
  assume "ihsg_data = None \<or> (ihsg_data = Some d \<and> frame_empty d)"
  then show "screen_and_extract full_data ihsg_data crit p =
      Inr (fst (screened full_data crit p), snd (screened full_data crit p), NA, Fin 0)"
    by (rule screen_without_benchmark)
qed

text \<open>
  A download of one bar for AAA.JK and the benchmark. The table \<open>no_benchmark\<close> has no benchmark columns at all.
\<close>

definition one_bar :: table where
  "one_bar = Keyed 1
     [((''Close'', ''AAA.JK''), [Fin 120]), ((''Close'', ''^JKSE''), [Fin 6800]),
      ((''Open'', ''AAA.JK''), [Fin 110]), ((''Open'', ''^JKSE''), [Fin 6790]),
      ((''Volume'', ''AAA.JK''), [Fin 7000000]), ((''Volume'', ''^JKSE''), [Fin 0])]"

definition no_benchmark :: table where
  "no_benchmark = Keyed 2
     [((''Close'', ''AAA.JK''), [Fin 100, Fin 120]), ((''Open'', ''AAA.JK''), [Fin 100, Fin 110]),
      ((''Volume'', ''AAA.JK''), [Fin 6000000, Fin 7000000])]"

theorem benchmark_status_of_loaded_data_witness:
  "(\<exists>full_data ihsg_data results chart_jsons.
      load_historical_data True [''AAA.JK'', ''BBB.JK'', ''^JKSE''] (Downloaded two_tickers) =
        (full_data, ihsg_data) \<and>
      screen_and_extract full_data ihsg_data default_criteria short_windows =
        Inr (results, chart_jsons, Quote (Fin 6800) (Fin (25 / 4)), Fin (25 / 4))) \<and>
   (\<exists>full_data ihsg_data results chart_jsons.
      load_historical_data True [''AAA.JK'', ''^JKSE''] (Downloaded one_bar) = (full_data, ihsg_data) \<and>
      screen_and_extract full_data ihsg_data default_criteria short_windows =
        Inr (results, chart_jsons, Quote (Fin 6800) (Fin 0), Fin 0)) \<and>
   (\<exists>full_data results chart_jsons.
      load_historical_data True [''AAA.JK'', ''^JKSE''] (Downloaded no_benchmark) = (full_data, None) \<and>
      screen_and_extract full_data None default_criteria short_windows =
        Inr (results, chart_jsons, NA, Fin 0))"
proof -
  let ?T = "Keyed 2
     [((''Close'', ''AAA.JK''), [Fin 100, Fin 120]), ((''Close'', ''BBB.JK''), [Fin 100, Fin 100]),
      ((''High'', ''AAA.JK''), [Fin 102, Fin 125]), ((''High'', ''BBB.JK''), [Fin 101, Fin 102]),
      ((''Low'', ''AAA.JK''), [Fin 99, Fin 108]), ((''Low'', ''BBB.JK''), [Fin 99, Fin 99]),
      ((''Open'', ''AAA.JK''), [Fin 100, Fin 110]), ((''Open'', ''BBB.JK''), [Fin 100, Fin 101]),
      ((''Volume'', ''AAA.JK''), [Fin 6000000, Fin 7000000]),
      ((''Volume'', ''BBB.JK''), [Fin 6000000, Fin 7000000])]"
  let ?B = "\<lparr>nrows = 2, cols = [(''Close'', [Fin 6400, Fin 6800]), (''High'', [Fin 6410, Fin 6810]),
      (''Low'', [Fin 6390, Fin 6400]), (''Open'', [Fin 6400, Fin 6405]), (''Volume'', [Fin 0, Fin 0])]\<rparr>"
  let ?T1 = "Keyed 1
     [((''Close'', ''AAA.JK''), [Fin 120]), ((''Open'', ''AAA.JK''), [Fin 110]),
      ((''Volume'', ''AAA.JK''), [Fin 7000000])]"
  let ?B1 = "\<lparr>nrows = 1, cols = [(''Close'', [Fin 6800]), (''Open'', [Fin 6790]), (''Volume'', [Fin 0])]\<rparr>"
  have l2: "load_historical_data True [''AAA.JK'', ''BBB.JK'', ''^JKSE''] (Downloaded two_tickers) =
      (?T, Some ?B)"
    by code_simp
  have l1: "load_historical_data True [''AAA.JK'', ''^JKSE''] (Downloaded one_bar) = (?T1, Some ?B1)"
    by code_simp
  have l0: "load_historical_data True [''AAA.JK'', ''^JKSE''] (Downloaded no_benchmark) = (no_benchmark, None)"
    by code_simp
  have b2: "\<not> frame_empty ?B" "wf_frame ?B" "col ?B ''Close'' = Inr [Fin 6400, Fin 6800]"
    by (simp_all add: frame_empty_def wf_frame_def col_def)
  have b1: "\<not> frame_empty ?B1" "wf_frame ?B1" "col ?B1 ''Close'' = Inr [Fin 6800]"
    by (simp_all add: frame_empty_def wf_frame_def col_def)
  have v2: "pct_change (previous [Fin 6400, Fin 6800]) (last [Fin 6400, Fin 6800]) = Fin (25 / 4)"
    by (simp add: pct_change_def previous_def fl_sub_def)
  from benchmark_status_of_loaded_data[OF l2, of ?B "[Fin 6400, Fin 6800]" default_criteria short_windows 0]
    b2 v2
  have 2: "screen_and_extract ?T (Some ?B) default_criteria short_windows =
      Inr (fst (screened ?T default_criteria short_windows),
           snd (screened ?T default_criteria short_windows), Quote (Fin 6800) (Fin (25 / 4)), Fin (25 / 4))"
    by simp
  from benchmark_status_of_loaded_data[OF l1, of ?B1 "[Fin 6800]" default_criteria short_windows 6800] b1
  have 1: "screen_and_extract ?T1 (Some ?B1) default_criteria short_windows =
      Inr (fst (screened ?T1 default_criteria short_windows),
           snd (screened ?T1 default_criteria short_windows), Quote (Fin 6800) (Fin 0), Fin 0)"
    by simp
  from benchmark_status_of_loaded_data[OF l0, of empty_frame "[]" default_criteria short_windows 0]
  have 0: "screen_and_extract no_benchmark None default_criteria short_windows =
      Inr (fst (screened no_benchmark default_criteria short_windows),
           snd (screened no_benchmark default_criteria short_windows), NA, Fin 0)"
    by simp
  have c2: "\<exists>full_data ihsg_data results chart_jsons.
      load_historical_data True [''AAA.JK'', ''BBB.JK'', ''^JKSE''] (Downloaded two_tickers) =
        (full_data, ihsg_data) \<and>
      screen_and_extract full_data ihsg_data default_criteria short_windows =
        Inr (results, chart_jsons, Quote (Fin 6800) (Fin (25 / 4)), Fin (25 / 4))"
    using l2 2 by (intro exI conjI)
  have c1: "\<exists>full_data ihsg_data results chart_jsons.
      load_historical_data True [''AAA.JK'', ''^JKSE''] (Downloaded one_bar) = (full_data, ihsg_data) \<and>
      screen_and_extract full_data ihsg_data default_criteria short_windows =
        Inr (results, chart_jsons, Quote (Fin 6800) (Fin 0), Fin 0)"
    using l1 1 by (intro exI conjI)
  have c0: "\<exists>full_data results chart_jsons.
      load_historical_data True [''AAA.JK'', ''^JKSE''] (Downloaded no_benchmark) = (full_data, None) \<and>
      screen_and_extract full_data None default_criteria short_windows =
        Inr (results, chart_jsons, NA, Fin 0)"
    using l0 0 by (intro exI conjI)
  show ?thesis using c2 c1 c0 by (intro conjI)
qed

text \<open>
  \<^verbatim>\<open>screen_and_extract\<close> called on its own with a flat, empty ticker table and a
  benchmark of two bars, a pair that \<^verbatim>\<open>load_historical_data\<close> never returns, takes
  the early return before the benchmark block and reports N/A.
\<close>

definition benchmark_two_bars :: frame where
  "benchmark_two_bars = \<lparr>nrows = 2, cols = [(''Close'', [Fin 6400, Fin 6800])]\<rparr>"

lemma early_return_before_benchmark_block:
  "screen_and_extract (Flat None empty_frame) (Some benchmark_two_bars) default_criteria default_indicators =
     Inr ([], [], NA, Fin 0) \<and>
   \<not> frame_empty benchmark_two_bars \<and>
   (\<forall>strict tickers dl. load_historical_data strict tickers dl \<noteq> (Flat None empty_frame, Some benchmark_two_bars))"
  by (auto simp: screen_and_extract_def empty_frame_def frame_empty_def benchmark_two_bars_def
      load_historical_data_def split: download.splits table.splits sum.splits if_splits)

text \<open>A table in which AAA.JK has its Open, Close and Volume columns but no High and no Low.\<close>

definition no_high_column :: table where
  "no_high_column = Keyed 2
     [((''Close'', ''AAA.JK''), [Fin 100, Fin 120]), ((''Open'', ''AAA.JK''), [Fin 100, Fin 110]),
      ((''Volume'', ''AAA.JK''), [Fin 6000000, Fin 7000000])]"

text \<open>
  Claim C5 does not hold of the code. The series without its High column passes the
  three filters, its row is appended, and then \<^verbatim>\<open>create_plotly_json\<close> raises KeyError
  inside the \<^verbatim>\<open>try\<close>. The handler reports the ticker as skipped, yet the row
  stays in the results, without a chart; for the table without the ticker the
  results are empty.
\<close>

theorem chart_fault_keeps_the_row:
  "screen_and_extract no_high_column None default_criteria short_windows =
     Inr ([\<lparr>Ticker = ''AAA.JK'', Harga_Terakhir = Fin 120, Gain_30D = Fin 20,
            Open_Close_Ratio = Fin (11 / 10), Open_Hari_Ini = Fin 110, Close_Kemarin = Fin 100,
            Volume_Hari_Ini = Fin 7000000, Avg_Volume_20D = Fin 6500000, RSI = Fin 100\<rparr>],
          [], NA, Fin 0) \<and>
   screen_and_extract (Keyed 2 []) None default_criteria short_windows = Inr ([], [], NA, Fin 0) \<and>
   ebind (extract_ticker no_high_column ''AAA.JK'') (\<lambda>stock_df0.
     ebind (calculate_indicators (the stock_df0) short_windows) (\<lambda>stock_df.
       create_plotly_json stock_df ''AAA.JK'' short_windows)) = Inl (KeyError ''High'')"
  by code_simp

text \<open>The columns of a keyed table without those of one ticker.\<close>

definition without_ticker :: "string \<Rightarrow> ((string \<times> string) \<times> fl list) list \<Rightarrow> ((string \<times> string) \<times> fl list) list" where
  "without_ticker t cs = filter (\<lambda>c. snd (fst c) \<noteq> t) cs"

lemma unique_filter: "unique (filter P xs) = filter P (unique xs)"
  by (simp add: unique_def rev_filter remdups_filter)

lemma tickers_without:
  "tickers_to_process (Keyed n (without_ticker t cs)) = filter (\<lambda>x. x \<noteq> t) (tickers_to_process (Keyed n cs))"
proof -
  have "map (\<lambda>c. snd (fst c)) (without_ticker t cs) = filter (\<lambda>x. x \<noteq> t) (map (\<lambda>c. snd (fst c)) cs)"
    by (simp add: without_ticker_def filter_map comp_def)
  then show ?thesis
    by (simp add: tickers_to_process_def unique_filter) (metis (mono_tags, lifting) filter_cong)
qed

lemma extract_without:
  "t' \<noteq> t \<Longrightarrow> extract_ticker (Keyed n (without_ticker t cs)) t' = extract_ticker (Keyed n cs) t'"
proof -
  assume "t' \<noteq> t"
  then have "filter (\<lambda>c. snd (fst c) = t') (without_ticker t cs) = filter (\<lambda>c. snd (fst c) = t') cs"
    by (auto simp: without_ticker_def intro: filter_cong)
  then show ?thesis by simp
qed

lemma loop_body_without:
  "t' \<noteq> t \<Longrightarrow> loop_body (Keyed n (without_ticker t cs)) crit p st t' = loop_body (Keyed n cs) crit p st t'"
  using extract_without[of t' t n cs] by (simp add: loop_body_def del: extract_ticker.simps)

lemma loop_body_skip:
  assumes "row_of full_data crit p t = None"
  shows "loop_body full_data crit p st t = st"
proof -
  from assms have "chart_of full_data crit p t = None"
    by (auto simp: row_of_def chart_of_def split: sum.splits option.splits prod.splits)
  with assms show ?thesis by (simp add: loop_body_eq)
qed

lemma foldl_skip:
  assumes "\<And>st. f st t = st" and "\<And>st x. x \<noteq> t \<Longrightarrow> g st x = f st x"
  shows "foldl g st (filter (\<lambda>x. x \<noteq> t) xs) = foldl f st xs"
  by (induction xs arbitrary: st) (simp_all add: assms)

lemma raised_row_of:
  assumes "extract_ticker full_data t = Inr (Some df)" "screen_ticker df crit p t = Inl e"
  shows "row_of full_data crit p t = None"
  using assms by (simp add: row_of_def)

text \<open>
  What does hold of the \<^verbatim>\<open>except\<close> clause: a ticker of a keyed table whose
  processing raises before the row is appended (in the indicators, in reading the
  latest bar) is skipped, and the run returns what it returns for the table without
  that ticker's columns.
\<close>

lemma fault_before_append_skips_ticker:
  assumes "extract_ticker (Keyed n cs) t = Inr (Some df)"
    and "screen_ticker df crit p t = Inl e"
  shows "screen_and_extract (Keyed n (without_ticker t cs)) ihsg_data crit p =
         screen_and_extract (Keyed n cs) ihsg_data crit p"
proof -
  have r: "row_of (Keyed n cs) crit p t = None"
    using assms by (rule raised_row_of)
  have "foldl (loop_body (Keyed n (without_ticker t cs)) crit p) ([], [])
          (filter (\<lambda>x. x \<noteq> t) (tickers_to_process (Keyed n cs))) =
        foldl (loop_body (Keyed n cs) crit p) ([], []) (tickers_to_process (Keyed n cs))"
    by (rule foldl_skip) (simp_all add: loop_body_skip[OF r] loop_body_without)
  then have "screened (Keyed n (without_ticker t cs)) crit p = screened (Keyed n cs) crit p"
    by (simp add: screened_def tickers_without)
  then show ?thesis
    by (simp add: screen_and_extract_def screened_def tickers_to_process_def)
qed

text \<open>A table in which AAA.JK has no Volume column, so that its indicators raise KeyError.\<close>

definition no_volume_column :: table where
  "no_volume_column = Keyed 2
     [((''Close'', ''AAA.JK''), [Fin 100, Fin 120]), ((''Open'', ''AAA.JK''), [Fin 100, Fin 110]),
      ((''Close'', ''CCC.JK''), [Fin 100, Fin 120]), ((''Open'', ''CCC.JK''), [Fin 100, Fin 110]),
      ((''High'', ''CCC.JK''), [Fin 100, Fin 125]), ((''Low'', ''CCC.JK''), [Fin 100, Fin 110]),
      ((''Volume'', ''CCC.JK''), [Fin 6000000, Fin 7000000])]"

lemma fault_before_append_example:
  "screen_and_extract (Keyed 2
     [((''Close'', ''CCC.JK''), [Fin 100, Fin 120]), ((''Open'', ''CCC.JK''), [Fin 100, Fin 110]),
      ((''High'', ''CCC.JK''), [Fin 100, Fin 125]), ((''Low'', ''CCC.JK''), [Fin 100, Fin 110]),
      ((''Volume'', ''CCC.JK''), [Fin 6000000, Fin 7000000])]) None default_criteria short_windows =
   screen_and_extract no_volume_column None default_criteria short_windows"
proof -
  let ?df = "\<lparr>nrows = 2, cols = [(''Close'', [Fin 100, Fin 120]), (''Open'', [Fin 100, Fin 110])]\<rparr>"
  have e: "extract_ticker no_volume_column ''AAA.JK'' = Inr (Some ?df)"
    by (simp add: no_volume_column_def)
  have s: "screen_ticker ?df default_criteria short_windows ''AAA.JK'' = Inl (KeyError ''Volume'')"
    by code_simp
  from fault_before_append_skips_ticker[OF e[unfolded no_volume_column_def] s, of None]
  show ?thesis
    by (simp add: no_volume_column_def without_ticker_def)
qed

section \<open>Claims about analyze\<close>

text \<open>
  A wholly empty response: the download raised, or it returned a table without rows
  or without columns.
\<close>

definition table_empty :: "table \<Rightarrow> bool" where
  "table_empty t = (case t of Flat nm df \<Rightarrow> frame_empty df | Keyed n cs \<Rightarrow> n = 0 \<or> cs = [])"

definition wholly_empty :: "download \<Rightarrow> bool" where
  "wholly_empty dl = (case dl of Download_Raised \<Rightarrow> True | Downloaded t \<Rightarrow> table_empty t)"

lemma screen_ticker_no_rows:
  assumes "nrows df = 0"
  shows "\<exists>e. screen_ticker df crit p t = Inl e"
proof (cases "calculate_indicators df p")
  case (Inl e)
  then show ?thesis by (simp add: screen_ticker_def ebind_def)
next
  case (Inr d)
  from calculate_indicators_InrD[OF Inr] have "nrows d = nrows df"
    by (auto simp: nrows_augmented)
  with assms Inr show ?thesis by (simp add: screen_ticker_def ebind_def)
qed

lemma row_of_no_rows: "row_of (Keyed 0 cs) crit p t = None"
  using screen_ticker_no_rows[of "\<lparr>nrows = 0, cols = map (\<lambda>c. (fst (fst c), snd c)) (filter (\<lambda>c. snd (fst c) = t) cs)\<rparr>" crit p t]
  by (auto simp: row_of_def)

lemma map_filter_None: "(\<And>x. f x = None) \<Longrightarrow> List.map_filter f xs = []"
  by (induction xs) simp_all

lemma results_no_rows: "fst (screened (Keyed 0 cs) crit p) = []"
  by (simp add: results_screened map_filter_None row_of_no_rows)

lemma results_no_columns: "fst (screened (Keyed n []) crit p) = []"
  by (simp add: results_screened tickers_to_process_def unique_def)

lemma screen_empty_flat:
  "frame_empty df \<Longrightarrow> screen_and_extract (Flat nm df) ihsg crit p = Inr ([], [], NA, Fin 0)"
  by (simp add: screen_and_extract_def)

lemma ihsg_analysis_no_rows: "ihsg_analysis (Some \<lparr>nrows = 0, cols = xs\<rparr>) = Inr (NA, Fin 0)"
  by (simp add: ihsg_analysis_def frame_empty_def)

lemma load_cases:
  assumes "wholly_empty dl"
  shows "(\<exists>nm df. frame_empty df \<and> fst (load_historical_data strict tickers dl) = Flat nm df) \<or>
    (\<exists>cs xs. load_historical_data strict tickers dl = (Keyed 0 cs, Some \<lparr>nrows = 0, cols = xs\<rparr>)) \<or>
    (\<exists>cs. load_historical_data strict tickers dl = (Keyed 0 cs, None)) \<or>
    (\<exists>n. load_historical_data strict tickers dl = (Keyed n [], None))"
proof (cases dl)
  case Download_Raised
  then show ?thesis by (simp add: load_historical_data_def frame_empty_def)
next
  case (Downloaded t)
  show ?thesis
  proof (cases t)
    case (Flat nm df)
    with Downloaded assms show ?thesis
      by (simp add: load_historical_data_def wholly_empty_def table_empty_def)
  next
    case (Keyed n cs)
    with Downloaded assms have e: "n = 0 \<or> cs = []"
      by (simp add: wholly_empty_def table_empty_def)
    show ?thesis
    proof (cases "loc_tickers strict (filter (\<lambda>t. t \<noteq> IHSG_TICKER) tickers) cs")
      case (Inl err)
      with Downloaded Keyed show ?thesis
        by (simp add: load_historical_data_def frame_empty_def)
    next
      case (Inr stock_cols)
      from e show ?thesis
      proof
        assume "n = 0"
        with Downloaded Keyed Inr show ?thesis
          by (simp add: load_historical_data_def)
      next
        assume c: "cs = []"
        with Inr have "stock_cols = []"
          by (auto simp: loc_tickers_def split: list.splits if_splits)
        with c Downloaded Keyed Inr show ?thesis
          by (simp add: load_historical_data_def)
      qed
    qed
  qed
qed

lemma screen_after_empty_load:
  assumes "wholly_empty dl"
  shows "\<exists>charts s c. screen_and_extract (fst (load_historical_data strict tickers dl))
      (snd (load_historical_data strict tickers dl)) crit p = Inr ([], charts, s, c)"
  using load_cases[OF assms, of strict tickers]
proof (elim disjE exE conjE)
  fix nm df assume "frame_empty df" "fst (load_historical_data strict tickers dl) = Flat nm df"
  then show ?thesis by (simp add: screen_empty_flat)
next
  fix cs xs assume "load_historical_data strict tickers dl = (Keyed 0 cs, Some \<lparr>nrows = 0, cols = xs\<rparr>)"
  then show ?thesis
    using screen_and_extract_eq[of "Keyed 0 cs" "Some \<lparr>nrows = 0, cols = xs\<rparr>" NA "Fin 0" crit p]
    by (simp add: ihsg_analysis_no_rows results_no_rows)
next
  fix cs assume "load_historical_data strict tickers dl = (Keyed 0 cs, None)"
  then show ?thesis
    using screen_and_extract_eq[of "Keyed 0 cs" None NA "Fin 0" crit p]
    by (simp add: ihsg_analysis_def results_no_rows)
next
  fix n assume "load_historical_data strict tickers dl = (Keyed n [], None)"
  then show ?thesis
    using screen_and_extract_eq[of "Keyed n []" None NA "Fin 0" crit p]
    by (simp add: ihsg_analysis_def results_no_columns)
qed

text \<open>
  Claim C4, as amended. When the ticker list is not empty and the fetch yields a
  wholly empty response, \<^verbatim>\<open>analyze\<close> renders the form with the message of the
  \<^verbatim>\<open>if not results\<close> test, the same message it shows when no ticker passes the
  filters, and with no results; that page is the only outcome, so no exception
  leaves the function. This holds for either behaviour of \<^verbatim>\<open>.loc\<close> on a missing ticker.
\<close>

theorem empty_fetch_reports_no_results:
  assumes "selected_tickers_list \<noteq> []" and "wholly_empty dl"
  shows "analyze_screen strict selected_tickers_list crit p dl = Inl (Error_Page MSG_NO_RESULTS) \<and>
    (\<forall>pg. analyze strict selected_tickers_list crit p dl pg \<longleftrightarrow> pg = Error_Page MSG_NO_RESULTS)"
proof -
  from screen_after_empty_load[OF assms(2), of strict "remdups (selected_tickers_list @ [IHSG_TICKER])" crit p]
  obtain charts s c where
    "screen_and_extract (fst (load_historical_data strict (remdups (selected_tickers_list @ [IHSG_TICKER])) dl))
      (snd (load_historical_data strict (remdups (selected_tickers_list @ [IHSG_TICKER])) dl)) crit p =
      Inr ([], charts, s, c)"
    by (elim exE)
  with assms(1) have 1: "analyze_screen strict selected_tickers_list crit p dl = Inl (Error_Page MSG_NO_RESULTS)"
    by (simp add: analyze_screen_def Let_def split_beta)
  then show ?thesis by (auto simp: analyze_def)
qed

text \<open>
  Claim C4 as stated fails: a download that raised and a table in which the one
  requested ticker fails the open-ratio filter end in the same page with the same
  message. The program has no message of its own for missing data.
\<close>

theorem empty_fetch_message_is_the_no_results_message:
  "analyze_screen True [''BBB.JK''] default_criteria short_windows Download_Raised =
     Inl (Error_Page MSG_NO_RESULTS) \<and>
   analyze_screen True [''BBB.JK''] default_criteria short_windows (Downloaded two_tickers) =
     Inl (Error_Page MSG_NO_RESULTS)"
  by code_simp

theorem empty_fetch_reports_no_results_witness:
  "analyze_screen True [''BBCA.JK'', ''TLKM.JK''] default_criteria default_indicators Download_Raised =
     Inl (Error_Page MSG_NO_RESULTS) \<and>
   analyze True [''BBCA.JK'', ''TLKM.JK''] default_criteria default_indicators Download_Raised
     (Error_Page MSG_NO_RESULTS) \<and>
   analyze False [''BBCA.JK''] default_criteria default_indicators
     (Downloaded (Keyed 0 [((''Close'', ''BBCA.JK''), []), ((''Close'', ''^JKSE''), [])]))
     (Error_Page MSG_NO_RESULTS)"
proof -
  have 1: "wholly_empty Download_Raised"
    and 2: "wholly_empty (Downloaded (Keyed 0 [((''Close'', ''BBCA.JK''), []), ((''Close'', ''^JKSE''), [])]))"
    by (simp_all add: wholly_empty_def table_empty_def)
  have n: "[''BBCA.JK'', ''TLKM.JK''] \<noteq> []" "[''BBCA.JK''] \<noteq> []" by simp_all
  show ?thesis
    using empty_fetch_reports_no_results[OF n(1) 1, of True default_criteria default_indicators]
      empty_fetch_reports_no_results[OF n(2) 2, of False default_criteria default_indicators]
    by simp
qed

text \<open>
  Some arrangement that \<^verbatim>\<open>sort_values\<close> may return always exists: insertion by
  descending gain builds one.
\<close>

fun insert_desc :: "screening_result \<Rightarrow> screening_result list \<Rightarrow> screening_result list" where
  "insert_desc x [] = [x]"
| "insert_desc x (y # ys) =
     (if fl_ge (Gain_30D x) (Gain_30D y) then x # y # ys else y # insert_desc x ys)"

lemma mset_insert_desc: "mset (insert_desc x ys) = add_mset x (mset ys)"
  by (induction ys) auto

lemma set_insert_desc: "set (insert_desc x ys) = insert x (set ys)"
  by (induction ys) auto

lemma fl_ge_total: "a \<noteq> NaN \<Longrightarrow> b \<noteq> NaN \<Longrightarrow> fl_ge a b \<or> fl_ge b a"
  by (cases a; cases b) (auto simp: fl_ge_def)

lemma fl_ge_trans: "fl_ge a b \<Longrightarrow> fl_ge b c \<Longrightarrow> fl_ge a c"
  by (cases a; cases b; cases c) (auto simp: fl_ge_def)

lemma sorted_insert_desc:
  assumes "sorted_wrt (\<lambda>a b. fl_ge (Gain_30D a) (Gain_30D b)) ys"
    and "Gain_30D x \<noteq> NaN" and "\<forall>y\<in>set ys. Gain_30D y \<noteq> NaN"
  shows "sorted_wrt (\<lambda>a b. fl_ge (Gain_30D a) (Gain_30D b)) (insert_desc x ys)"
  using assms
proof (induction ys)
  case Nil
  show ?case by simp
next
  case (Cons y ys)
  show ?case
  proof (cases "fl_ge (Gain_30D x) (Gain_30D y)")
    case True
    with Cons.prems show ?thesis by (auto intro: fl_ge_trans)
  next
    case False
    with Cons.prems have "fl_ge (Gain_30D y) (Gain_30D x)"
      using fl_ge_total[of "Gain_30D x" "Gain_30D y"] by auto
    with False Cons show ?thesis by (auto simp: set_insert_desc)
  qed
qed

lemma sorted_arrangement_exists:
  fixes rows :: "screening_result list"
  assumes "\<forall>r\<in>set rows. Gain_30D r \<noteq> NaN"
  shows "\<exists>front. mset front = mset rows \<and> sorted_wrt (\<lambda>a b. fl_ge (Gain_30D a) (Gain_30D b)) front"
  using assms
proof (induction rows)
  case Nil
  show ?case by simp
next
  case (Cons r rows)
  then obtain front where f: "mset front = mset rows"
    "sorted_wrt (\<lambda>a b. fl_ge (Gain_30D a) (Gain_30D b)) front"
    by auto
  from f(1) have "set front = set rows" by (rule mset_eq_setD)
  with Cons.prems have "\<forall>y\<in>set front. Gain_30D y \<noteq> NaN" "Gain_30D r \<noteq> NaN" by auto
  with f(2) have "sorted_wrt (\<lambda>a b. fl_ge (Gain_30D a) (Gain_30D b)) (insert_desc r front)"
    by (simp add: sorted_insert_desc)
  moreover have "mset (insert_desc r front) = mset (r # rows)"
    by (simp add: mset_insert_desc f(1))
  ultimately show ?case by blast
qed

lemma final_results_iff:
  "final_results results out \<longleftrightarrow>
     mset out = mset (filter (\<lambda>r. Gain_30D r \<noteq> NaN) results) \<and>
     sorted_wrt (\<lambda>a b. fl_ge (Gain_30D a) (Gain_30D b)) out"
proof
  assume "final_results results out"
  then obtain s where s: "sort_values_desc results s" and o: "out = dropna s"
    by (auto simp: final_results_def)
  let ?k = "length (filter (\<lambda>r. \<not> isna (Gain_30D r)) results)"
  from s have m: "mset (take ?k s) = mset (filter (\<lambda>r. \<not> isna (Gain_30D r)) results)"
    and w: "sorted_wrt (\<lambda>a b. fl_ge (Gain_30D a) (Gain_30D b)) (take ?k s)"
    and d: "drop ?k s = filter (\<lambda>r. isna (Gain_30D r)) results"
    by (simp_all add: sort_values_desc_def Let_def)
  from m have "set (take ?k s) = set (filter (\<lambda>r. \<not> isna (Gain_30D r)) results)"
    by (rule mset_eq_setD)
  then have 1: "filter (\<lambda>r. \<not> isna (Gain_30D r)) (take ?k s) = take ?k s"
    by (auto simp: filter_id_conv)
  have 2: "filter (\<lambda>r. \<not> isna (Gain_30D r)) (drop ?k s) = []"
    by (simp add: d)
  have "dropna s = dropna (take ?k s @ drop ?k s)" by simp
  also have "\<dots> = take ?k s" unfolding dropna_def filter_append 1 2 by simp
  finally have "out = take ?k s" using o by simp
  with m w show "mset out = mset (filter (\<lambda>r. Gain_30D r \<noteq> NaN) results) \<and>
     sorted_wrt (\<lambda>a b. fl_ge (Gain_30D a) (Gain_30D b)) out"
    by (simp add: isna_def)
next
  assume a: "mset out = mset (filter (\<lambda>r. Gain_30D r \<noteq> NaN) results) \<and>
     sorted_wrt (\<lambda>a b. fl_ge (Gain_30D a) (Gain_30D b)) out"
  let ?s = "out @ filter (\<lambda>r. isna (Gain_30D r)) results"
  from a have len: "length out = length (filter (\<lambda>r. \<not> isna (Gain_30D r)) results)"
    by (metis (mono_tags, lifting) isna_def size_mset filter_cong)
  have "sort_values_desc results ?s"
    using a len by (simp add: sort_values_desc_def Let_def isna_def)
  moreover from a have "mset out = mset (filter (\<lambda>r. Gain_30D r \<noteq> NaN) results)"
    by (rule conjunct1)
  then have "set out = set (filter (\<lambda>r. Gain_30D r \<noteq> NaN) results)"
    by (rule mset_eq_setD)
  then have "dropna ?s = out"
    by (auto simp: dropna_def isna_def filter_id_conv)
  ultimately show "final_results results out"
    by (auto simp: final_results_def)
qed

text \<open>
  Claim C3, as amended. The ranking always yields a list, and every list it may
  yield is in descending order of the trailing return (the order \<^verbatim>\<open>sort_values\<close>
  establishes and \<^verbatim>\<open>dropna\<close> keeps), has no row whose trailing return is undefined,
  and holds exactly the screening rows with a defined trailing return, each as often
  as screening produced it. The order of rows with equal trailing return is not
  fixed.
\<close>

theorem final_results_sorted_without_undefined:
  "(\<exists>out. final_results results out) \<and>
   (\<forall>out. final_results results out \<longrightarrow>
      sorted_wrt (\<lambda>a b. fl_ge (Gain_30D a) (Gain_30D b)) out \<and>
      (\<forall>r\<in>set out. Gain_30D r \<noteq> NaN) \<and>
      mset out = mset (filter (\<lambda>r. Gain_30D r \<noteq> NaN) results))"
proof (intro conjI allI impI)
  have "\<forall>r\<in>set (filter (\<lambda>r. Gain_30D r \<noteq> NaN) results). Gain_30D r \<noteq> NaN" by simp
  from sorted_arrangement_exists[OF this] show "\<exists>out. final_results results out"
    by (auto simp: final_results_iff)
next
  fix out assume f: "final_results results out"
  then show "sorted_wrt (\<lambda>a b. fl_ge (Gain_30D a) (Gain_30D b)) out"
    and m: "mset out = mset (filter (\<lambda>r. Gain_30D r \<noteq> NaN) results)"
    by (simp_all add: final_results_iff)
  from m have "set out = set (filter (\<lambda>r. Gain_30D r \<noteq> NaN) results)" by (rule mset_eq_setD)
  then show "\<forall>r\<in>set out. Gain_30D r \<noteq> NaN" by simp
qed

text \<open>A result row for a ticker with a given trailing return.\<close>

definition row_with :: "string \<Rightarrow> fl \<Rightarrow> screening_result" where
  "row_with t g = \<lparr>Ticker = t, Harga_Terakhir = Fin 120, Gain_30D = g, Open_Close_Ratio = Fin (11 / 10),
     Open_Hari_Ini = Fin 110, Close_Kemarin = Fin 100, Volume_Hari_Ini = Fin 7000000,
     Avg_Volume_20D = Fin 6500000, RSI = Fin 60\<rparr>"

text \<open>Twenty screening rows, in the order of their discovery, all with the trailing return 5.\<close>

definition twenty_ties :: "screening_result list" where
  "twenty_ties = map (\<lambda>t. row_with t (Fin 5))
     [''T01.JK'', ''T02.JK'', ''T03.JK'', ''T04.JK'', ''T05.JK'', ''T06.JK'', ''T07.JK'',
      ''T08.JK'', ''T09.JK'', ''T10.JK'', ''T11.JK'', ''T12.JK'', ''T13.JK'', ''T14.JK'',
      ''T15.JK'', ''T16.JK'', ''T17.JK'', ''T18.JK'', ''T19.JK'', ''T20.JK'']"

lemma sorted_wrt_all: "(\<And>x y. x \<in> set xs \<Longrightarrow> y \<in> set xs \<Longrightarrow> P x y) \<Longrightarrow> sorted_wrt P xs"
  by (induction xs) auto

text \<open>
  Claim C3 as stated fails in its last part, at a list long enough for the quicksort
  that \<^verbatim>\<open>sort_values\<close> calls to partition it: for twenty different rows with one and
  the same trailing return, the order in which screening found them is not the order
  every run of the ranking keeps. The sort that is called is not a stable one.
\<close>

theorem ties_may_change_places:
  "length twenty_ties = 20 \<and> distinct twenty_ties \<and>
   list_all (\<lambda>r. Gain_30D r = Fin 5) twenty_ties \<and>
   \<not> (\<forall>out. final_results twenty_ties out \<longrightarrow> out = twenty_ties)"
proof -
  have g: "list_all (\<lambda>r. Gain_30D r = Fin 5) twenty_ties"
    by (simp add: twenty_ties_def row_with_def)
  have d: "distinct twenty_ties" and l: "length twenty_ties = 20"
    by (simp_all add: twenty_ties_def row_with_def)
  from g have a: "\<forall>r\<in>set twenty_ties. Gain_30D r = Fin 5"
    by (simp add: list_all_iff)
  then have f: "filter (\<lambda>r. Gain_30D r \<noteq> NaN) twenty_ties = twenty_ties"
    by (simp add: filter_id_conv)
  have s: "sorted_wrt (\<lambda>a b. fl_ge (Gain_30D a) (Gain_30D b)) (rev twenty_ties)"
    by (rule sorted_wrt_all) (simp add: a fl_ge_def)
  have "final_results twenty_ties (rev twenty_ties)"
    using s by (simp add: final_results_iff f)
  moreover have "rev twenty_ties \<noteq> twenty_ties"
    by (simp add: twenty_ties_def row_with_def)
  ultimately have "\<not> (\<forall>out. final_results twenty_ties out \<longrightarrow> out = twenty_ties)"
    by blast
  with l d g show ?thesis by (intro conjI)
qed

theorem final_results_sorted_without_undefined_witness:
  "final_results [row_with ''CCC.JK'' NaN, row_with ''AAA.JK'' (Fin 5), row_with ''DDD.JK'' (Fin 7)]
                 [row_with ''DDD.JK'' (Fin 7), row_with ''AAA.JK'' (Fin 5)] \<and>
   sorted_wrt (\<lambda>a b. fl_ge (Gain_30D a) (Gain_30D b))
     [row_with ''DDD.JK'' (Fin 7), row_with ''AAA.JK'' (Fin 5)] \<and>
   row_with ''CCC.JK'' NaN \<notin> set [row_with ''DDD.JK'' (Fin 7), row_with ''AAA.JK'' (Fin 5)]"
proof -
  let ?rs = "[row_with ''CCC.JK'' NaN, row_with ''AAA.JK'' (Fin 5), row_with ''DDD.JK'' (Fin 7)]"
  let ?out = "[row_with ''DDD.JK'' (Fin 7), row_with ''AAA.JK'' (Fin 5)]"
  have f: "final_results ?rs ?out"
    by (simp add: final_results_iff row_with_def fl_ge_def)
  from final_results_sorted_without_undefined[of ?rs]
  have "final_results ?rs ?out \<longrightarrow>
      sorted_wrt (\<lambda>a b. fl_ge (Gain_30D a) (Gain_30D b)) ?out \<and>
      (\<forall>r\<in>set ?out. Gain_30D r \<noteq> NaN) \<and>
      mset ?out = mset (filter (\<lambda>r. Gain_30D r \<noteq> NaN) ?rs)"
    by (elim conjE allE)
  with f have s: "sorted_wrt (\<lambda>a b. fl_ge (Gain_30D a) (Gain_30D b)) ?out"
    and n: "\<forall>r\<in>set ?out. Gain_30D r \<noteq> NaN"
    by simp_all
  have "Gain_30D (row_with ''CCC.JK'' NaN) = NaN" by (simp add: row_with_def)
  with n have "row_with ''CCC.JK'' NaN \<notin> set ?out" by blast
  with f s show ?thesis by (intro conjI)
qed

end
